theory Spec2Isabelle
  imports Main "HOL-Library.AList"
begin

section \<open>The SYN-C runtime: value codec, memory manager, loader and execution engine\<close>

text \<open>
  A shallow embedding of \<^verbatim>\<open>src/sync/converter_sync.py\<close> and
  \<^verbatim>\<open>src/sync/executor_sync.py\<close>. Python integers are \<^typ>\<open>int\<close>, Python
  strings are \<^typ>\<open>string\<close>, a raised exception is the \<open>Inl\<close> branch of a sum.
\<close>

subsection \<open>Exceptions (execution\_exceptions.py, and those of the Python runtime)\<close>

text \<open>
  One constructor per exception class; the line, character and message payloads, which
  only serve diagnostics, are left out. The \<open>Py...\<close> constructors are exceptions of the
  Python runtime itself that the source lets escape. \<open>NotModelled\<close> marks the parts of the
  language that this embedding does not cover (IEEE-754 arithmetic, the random generator,
  string-to-number parsing); \<open>OutOfFuel\<close> is not an exception: it says that the bound on
  the recursion depth given to the interpreter was too small.
\<close>

datatype error =
    ExecutionError
  | SameNameStructureError
  | SameFieldsNameStructureError
  | SameFieldStructureError
  | SameNameFunctionError
  | SameParametersNameFunctionError
  | SameGlobalVariableNameError
  | NoMainFunctionError
  | MainFunctionWithParametersError
  | WrongBooleanCodeError
  | WrongCharacterCodeError
  | WrongPointerCodeError
  | NonValidCharacterError
  | NonValidIntegerError
  | InvalidTypeParameterInFunctionError
  | IncorrectNumberOfParametersInFunction
  | MallocNegativeSizeError
  | FreeNotAllocatedPointer
  | MemoryAccessError
  | MemoryExceededError
  | ReadOnlyMemoryWriteError
  | UndeclaredVariableError
  | UndeclaredFunctionError
  | UndeclaredStructureError
  | UndeclaredFieldError
  | GlobalVariableAndFunctionParameterWithSameNameError
  | MathDomainError
  | PyTypeError
  | PyValueError
  | PyIndexError
  | PyKeyError
  | PyUnicodeDecodeError
  | NoInputAvailable
  | NotModelled
  | OutOfFuel

subsection \<open>Constants and the value codec (converter\_sync.py)\<close>

definition MAX_NB_BITS :: nat where "MAX_NB_BITS = 32"
definition INT_NB_BITS :: nat where "INT_NB_BITS = MAX_NB_BITS"
definition POINTER_NB_BITS :: nat where "POINTER_NB_BITS = 24"
definition CHAR_NB_BITS :: nat where "CHAR_NB_BITS = 7"

definition NULL_ADDRESS :: int where "NULL_ADDRESS = 0"
definition FALSE_ENCODING :: int where "FALSE_ENCODING = 0"
definition TRUE_ENCODING :: int where "TRUE_ENCODING = 1"

definition MEMORY_SIZE :: int where "MEMORY_SIZE = 2 ^ POINTER_NB_BITS"

definition bin_to_int :: "int \<Rightarrow> int" where
  "bin_to_int x = (if x < 2 ^ (INT_NB_BITS - 1) then x else x - 2 ^ INT_NB_BITS)"

text \<open>The two \<^verbatim>\<open>while\<close> loops of \<^verbatim>\<open>int_to_bin\<close>, run when \<^verbatim>\<open>overflow\<close> is set.\<close>

function int_to_bin_while_high :: "int \<Rightarrow> int" where
  "int_to_bin_while_high x =
     (if x \<ge> 2 ^ (INT_NB_BITS - 1) then int_to_bin_while_high (x - 2 ^ INT_NB_BITS) else x)"
  by pat_completeness auto
termination
  by (relation "measure nat") (auto simp: INT_NB_BITS_def MAX_NB_BITS_def)

function int_to_bin_while_low :: "int \<Rightarrow> int" where
  "int_to_bin_while_low x =
     (if x < - (2 ^ INT_NB_BITS) then int_to_bin_while_low (x + 2 ^ INT_NB_BITS) else x)"
  by pat_completeness auto
termination
  by (relation "measure (\<lambda>x. nat (- x))") (auto simp: INT_NB_BITS_def MAX_NB_BITS_def)

declare int_to_bin_while_high.simps [simp del]
declare int_to_bin_while_low.simps [simp del]

definition int_to_bin :: "int \<Rightarrow> bool \<Rightarrow> int" where
  "int_to_bin x overflow =
     (let x = (if overflow then int_to_bin_while_low (int_to_bin_while_high x) else x)
      in if x < 0 then x + 2 ^ INT_NB_BITS else x)"

text \<open>
  \<^verbatim>\<open>bin_to_char\<close>: \<^verbatim>\<open>chr(x)\<close> when \<^verbatim>\<open>x <= 2**CHAR_NB_BITS\<close>. Python's
  \<^verbatim>\<open>chr\<close> raises \<^verbatim>\<open>ValueError\<close> below zero; the one-character string it
  returns is a \<^typ>\<open>char\<close> (ordinals up to 128 fit a byte).
\<close>

definition bin_to_char :: "int \<Rightarrow> error + char" where
  "bin_to_char x =
     (if x \<le> 2 ^ CHAR_NB_BITS
      then (if x < 0 then Inl PyValueError else Inr (char_of x))
      else Inl WrongCharacterCodeError)"

definition bool_to_bin :: "bool \<Rightarrow> int" where
  "bool_to_bin x = (if x then 1 else 0)"

definition bin_to_bool :: "int \<Rightarrow> error + bool" where
  "bin_to_bool x =
     (if x = 1 then Inr True else if x = 0 then Inr False else Inl WrongBooleanCodeError)"

definition bin_to_pointer :: "int \<Rightarrow> error + int" where
  "bin_to_pointer x = (if x < MEMORY_SIZE then Inr (bin_to_int x) else Inl WrongPointerCodeError)"

definition pointer_to_bin :: "int \<Rightarrow> int" where
  "pointer_to_bin x = int_to_bin x False"

subsection \<open>Run-time values\<close>

text \<open>
  What a generator of the engine yields in its value slot, and what a memory cell holds:
  \<^verbatim>\<open>None\<close>, a word (a Python \<^verbatim>\<open>int\<close>), a Python \<^verbatim>\<open>bool\<close> (the result
  of \<^verbatim>\<open>AND\<close> and \<^verbatim>\<open>OR\<close>), a Python string (the control
  signals \<^verbatim>\<open>'CONTINUE'\<close> and \<^verbatim>\<open>'BREAK'\<close>, the type tags of
  \<^verbatim>\<open>PRINT\<close>, a structure name), or the tuple \<^verbatim>\<open>('RETURN', value)\<close>.
\<close>

datatype pyval = PyNone | PyInt int | PyBool bool | PyStr string | PyReturn pyval

subsection \<open>Abstract syntax (grammar\_sync.py)\<close>

text \<open>
  The parser's tuples become a datatype, one constructor per node kind executed by
  \<^verbatim>\<open>execute_node\<close>; the children are those that \<^verbatim>\<open>SYNC_AST_CHILDREN_INDEXES\<close>
  names. \<open>pos\<close> is the (line, character) pair that \<^verbatim>\<open>get_line_of_node\<close> and
  \<^verbatim>\<open>get_char_of_node\<close> read off a node. An integer literal carries the value of
  \<^verbatim>\<open>int(text)\<close>; a float literal carries the word that \<^verbatim>\<open>float_to_bin(float(text))\<close>
  gives (the IEEE-754 encoding is Python's \<^verbatim>\<open>struct\<close> module, not modelled); a
  character or string literal carries the text between its quotes.
\<close>

type_synonym pos = "nat \<times> nat"

datatype literal =
    Ident string
  | Integer int
  | Floatn int
  | Char string
  | String string
  | Keyword string

datatype node =
    Atom pos literal
  | Affect pos string node
  | Arrayaffect pos node node node
  | Structaffect pos node string node
  | Derefaffect pos node node
  | Bracketexpr pos node
  | Binaryoperator pos node string node
  | Boolexpr pos node string node
  | Unaryoperator pos string node
  | Refexpr pos string
  | Call pos string "param list"
  | Arraycall pos node node
  | Structcall pos node string
  | Ifexpr pos "branch list"
  | Forexpr pos string node node node
  | Whileexpr pos node node
  | Continuerule pos
  | Breakrule pos
  | Returnrule pos node
  | Block "node list"
and param = Expr node | TypeTag string
and branch = Cond string node node | Else node

text \<open>
  \<open>Cond tok c b\<close> is \<^verbatim>\<open>IF(c) b\<close> or \<^verbatim>\<open>ELIF(c) b\<close> (\<open>tok\<close> is the keyword),
  \<open>Else b\<close> is \<^verbatim>\<open>ELSE b\<close>. A parameter of a call is an expression or, in
  \<^verbatim>\<open>PRINT\<close>, \<^verbatim>\<open>PRINTERR\<close> and \<^verbatim>\<open>ELEMENTARY_OPERATIONS\<close>, a type keyword.
\<close>

datatype decl =
    Structdecl pos string "string list"
  | Fundecl pos string "string list" node

record globalaffect =
  ga_pos :: pos
  ga_variable :: string
  ga_value :: literal

record prog =
  globalsdecl :: "globalaffect list option"
  decls :: "decl list"

subsection \<open>The program object (class SynCProgram)\<close>

record function_info =
  fi_parameters :: "string list"
  fi_tree :: node
  fi_pos :: pos

text \<open>
  The attributes of \<^verbatim>\<open>SynCProgram\<close>. Dictionaries are association lists in insertion
  order (Python's \<^verbatim>\<open>dict\<close> order); \<^verbatim>\<open>memory\<close> is a \<^verbatim>\<open>defaultdict(int)\<close>, a
  total function whose value is word 0 wherever nothing was stored. Three more fields
  stand for the process around the object: \<open>stdin\<close> is the list of lines that successive
  calls of \<^verbatim>\<open>input()\<close> will return, \<open>stdout\<close> and \<open>stderr\<close> are the text written so
  far. \<open>trace\<close> is what \<^verbatim>\<open>main_function_iterator\<close> has yielded so far: the position
  of every elementary operation, paired with the value of
  \<^verbatim>\<open>nb_elementary_operations\<close> just after it was counted.
\<close>

record state =
  structures_fields :: "(string \<times> string list) list"
  structures_fields_indexes :: "(string \<times> nat) list"
  functions_infos :: "(string \<times> function_info) list"
  read_only_strings_adress :: "(string \<times> int) list"
  memory :: "int \<Rightarrow> pyval"
  read_write_stack_limit :: int
  memory_heap :: "(int \<times> int) list"
  global_variables :: "string list"
  local_variables :: "string list list"
  input_buffer :: "char list"
  nb_elementary_operations :: nat
  stdin :: "string list"
  stdout :: string
  stderr :: string
  trace :: "(pos \<times> nat) list"

text \<open>The attribute values set at the top of \<^verbatim>\<open>__init__\<close>, before the tree is read.\<close>

definition init_state :: "string list \<Rightarrow> state" where
  "init_state lines =
     \<lparr> structures_fields = [], structures_fields_indexes = [], functions_infos = [],
       read_only_strings_adress = [], memory = (\<lambda>_. PyInt 0), read_write_stack_limit = 1,
       memory_heap = [], global_variables = [], local_variables = [], input_buffer = [],
       nb_elementary_operations = 0, stdin = lines, stdout = [], stderr = [], trace = [] \<rparr>"

subsection \<open>Memory manager\<close>

definition get_memory :: "state \<Rightarrow> int \<Rightarrow> error + pyval" where
  "get_memory st address =
     (if address \<le> 0 \<or> address \<ge> MEMORY_SIZE then Inl MemoryAccessError
      else Inr (memory st address))"

text \<open>
  The mutators return the exception or the result together with the state they leave.
\<close>

definition set_memory :: "int \<Rightarrow> pyval \<Rightarrow> state \<Rightarrow> (error + unit) \<times> state" where
  "set_memory address val st =
     (if address \<le> 0 \<or> address \<ge> MEMORY_SIZE then (Inl MemoryAccessError, st)
      else if address < read_write_stack_limit st then (Inl ReadOnlyMemoryWriteError, st)
      else (Inr (), st\<lparr>memory := (memory st)(address := val)\<rparr>))"

definition check_memory_limit_exceeded :: "state \<Rightarrow> int option \<Rightarrow> bool" where
  "check_memory_limit_exceeded st address =
     (let local_variable_last_address =
            read_write_stack_limit st + sum_list (map (\<lambda>l. int (length l)) (local_variables st));
          address = (case address of
                       None \<Rightarrow> (if length (memory_heap st) = 0 then MEMORY_SIZE
                                else fst (last (memory_heap st)))
                     | Some a \<Rightarrow> a)
      in local_variable_last_address < address)"

text \<open>
  The \<^verbatim>\<open>for ... else\<close> loop of \<^verbatim>\<open>_malloc\<close> over \<^verbatim>\<open>enumerate(self.memory_heap)\<close>:
  \<open>Some (address, index_in_heap)\<close> at the \<^verbatim>\<open>break\<close>, \<open>None\<close> when the loop runs
  to its end (the \<^verbatim>\<open>else\<close> branch).
\<close>

primrec malloc_scan :: "int \<Rightarrow> int \<Rightarrow> nat \<Rightarrow> (int \<times> int) list \<Rightarrow> (int \<times> nat) option" where
  "malloc_scan sz previous_address index [] = None"
| "malloc_scan sz previous_address index (r # rest) =
     (let reserved_address = fst r; reserved_size = snd r
      in if reserved_address + reserved_size + sz < previous_address
         then Some (reserved_address + reserved_size, index)
         else malloc_scan sz reserved_address (Suc index) rest)"

text \<open>Lines 185--204: the address and the heap index chosen for a block of \<open>sz\<close> words (the parameter \<^verbatim>\<open>size\<close>).\<close>

definition malloc_place :: "int \<Rightarrow> (int \<times> int) list \<Rightarrow> int \<times> nat" where
  "malloc_place sz heap =
     (if length heap = 0 then (MEMORY_SIZE - sz, 0)
      else (case malloc_scan sz MEMORY_SIZE 0 heap of
              Some found \<Rightarrow> found
            | None \<Rightarrow> (fst (last heap) - sz, length heap)))"

text \<open>\<^verbatim>\<open>list.insert(i, x)\<close>: before index \<open>i\<close>, at the end when \<open>i\<close> is the length or more.\<close>

definition list_insert :: "nat \<Rightarrow> 'a \<Rightarrow> 'a list \<Rightarrow> 'a list" where
  "list_insert i x xs = take i xs @ x # drop i xs"

definition malloc :: "int \<Rightarrow> state \<Rightarrow> (error + int) \<times> state" where
  "malloc sz st =
     (if sz \<le> 0 then (Inl MallocNegativeSizeError, st)
      else (let address = fst (malloc_place sz (memory_heap st));
                index_in_heap = snd (malloc_place sz (memory_heap st))
            in if \<not> check_memory_limit_exceeded st (Some address)
               then (Inr (pointer_to_bin NULL_ADDRESS), st)
               else (Inr address,
                     st\<lparr>memory_heap := list_insert index_in_heap (address, sz) (memory_heap st)\<rparr>)))"

text \<open>The loop of \<^verbatim>\<open>_free\<close>: the heap without its first block at \<open>pointer\<close>, if any.\<close>

primrec free_scan :: "int \<Rightarrow> (int \<times> int) list \<Rightarrow> (int \<times> int) list option" where
  "free_scan pointer [] = None"
| "free_scan pointer (r # rest) =
     (if fst r = pointer then Some rest
      else (case free_scan pointer rest of None \<Rightarrow> None | Some rest' \<Rightarrow> Some (r # rest')))"

definition free :: "int \<Rightarrow> state \<Rightarrow> (error + unit) \<times> state" where
  "free pointer st =
     (case free_scan pointer (memory_heap st) of
        None \<Rightarrow> (Inl FreeNotAllocatedPointer, st)
      | Some heap \<Rightarrow> (Inr (), st\<lparr>memory_heap := heap\<rparr>))"

text \<open>\<^verbatim>\<open>list.index(x)\<close>: the first index of \<open>x\<close>, \<open>None\<close> for \<^verbatim>\<open>ValueError\<close>.\<close>

primrec list_index :: "'a \<Rightarrow> 'a list \<Rightarrow> nat option" where
  "list_index x [] = None"
| "list_index x (y # ys) =
     (if y = x then Some 0
      else (case list_index x ys of None \<Rightarrow> None | Some i \<Rightarrow> Some (Suc i)))"

definition get_variable_address :: "state \<Rightarrow> string \<Rightarrow> error + int" where
  "get_variable_address st variable_name =
     (let address = read_write_stack_limit st
      in case list_index variable_name (global_variables st) of
           Some index \<Rightarrow> Inr (address + int index)
         | None \<Rightarrow>
             (let address = address + (int (length (global_variables st))
                              + sum_list (map (\<lambda>lv. int (length lv)) (butlast (local_variables st))))
              in if local_variables st = [] then Inl PyIndexError
                 else (case list_index variable_name (last (local_variables st)) of
                         Some index \<Rightarrow> Inr (address + int index)
                       | None \<Rightarrow> Inl UndeclaredVariableError)))"

text \<open>
  A run of memory-manager calls, as the execution engine issues them; the run stops at
  the first exception.
\<close>

datatype mem_op = Set_memory int pyval | Malloc int | Free int

definition apply_mem_op :: "mem_op \<Rightarrow> state \<Rightarrow> error + state" where
  "apply_mem_op op st =
     (case op of
        Set_memory address val \<Rightarrow>
          (case set_memory address val st of (Inl e, _) \<Rightarrow> Inl e | (Inr _, st') \<Rightarrow> Inr st')
      | Malloc sz \<Rightarrow>
          (case malloc sz st of (Inl e, _) \<Rightarrow> Inl e | (Inr _, st') \<Rightarrow> Inr st')
      | Free pointer \<Rightarrow>
          (case free pointer st of (Inl e, _) \<Rightarrow> Inl e | (Inr _, st') \<Rightarrow> Inr st'))"

primrec run_mem_ops :: "mem_op list \<Rightarrow> state \<Rightarrow> error + state" where
  "run_mem_ops [] st = Inr st"
| "run_mem_ops (op # ops) st =
     (case apply_mem_op op st of Inl e \<Rightarrow> Inl e | Inr st' \<Rightarrow> run_mem_ops ops st')"

text \<open>The value of the most recent \<^verbatim>\<open>_set_memory\<close> call at \<open>address\<close> in a run, if any.\<close>

primrec last_written :: "mem_op list \<Rightarrow> int \<Rightarrow> pyval option" where
  "last_written [] address = None"
| "last_written (op # ops) address =
     (case last_written ops address of
        Some v \<Rightarrow> Some v
      | None \<Rightarrow> (case op of
                   Set_memory a v \<Rightarrow> (if a = address then Some v else None)
                 | Malloc _ \<Rightarrow> None
                 | Free _ \<Rightarrow> None))"

subsection \<open>Sequencing of fallible steps\<close>

definition and_then :: "error + 'a \<Rightarrow> ('a \<Rightarrow> error + 'b) \<Rightarrow> error + 'b" where
  "and_then r f = (case r of Inl e \<Rightarrow> Inl e | Inr x \<Rightarrow> f x)"

text \<open>A mutator's result, once the state at an exception is no longer of interest.\<close>

definition committed :: "(error + 'a) \<times> state \<Rightarrow> error + ('a \<times> state)" where
  "committed r = (case fst r of Inl e \<Rightarrow> Inl e | Inr x \<Rightarrow> Inr (x, snd r))"

primrec chain :: "('s \<Rightarrow> error + 's) list \<Rightarrow> 's \<Rightarrow> error + 's" where
  "chain [] st = Inr st"
| "chain (f # fs) st = (case f st of Inl e \<Rightarrow> Inl e | Inr st' \<Rightarrow> chain fs st')"

subsection \<open>Characters and strings\<close>

definition backslash :: char where "backslash = CHR 0x5C"
definition quote :: char where "quote = CHR 0x27"

text \<open>
  \<^verbatim>\<open>check_is_string_is_ascii_printable_with_escape\<close>: the index of the first
  character that is neither printable ASCII nor part of one of the escapes
  \<^verbatim>\<open>\0 \t \v \r \n \f \\ \'\<close>, or \<open>None\<close>. (A \<^typ>\<open>char\<close> is a byte: for a
  source text outside ASCII the index counts bytes, not code points; the index only
  feeds the error message.)
\<close>

primrec check_printable_loop :: "string \<Rightarrow> bool \<Rightarrow> nat \<Rightarrow> nat option" where
  "check_printable_loop [] check_escape i = None"
| "check_printable_loop (c # s) check_escape i =
     (if \<not> check_escape \<and> c = backslash then check_printable_loop s True (Suc i)
      else if check_escape then
        (if c \<in> set (''0tvrnf'' @ [backslash, quote]) then check_printable_loop s False (Suc i)
         else Some i)
      else if 32 \<le> (of_char c :: nat) \<and> (of_char c :: nat) \<le> 126
        then check_printable_loop s check_escape (Suc i)
      else Some i)"

definition check_is_string_is_ascii_printable_with_escape :: "string \<Rightarrow> nat option" where
  "check_is_string_is_ascii_printable_with_escape s = check_printable_loop s False 0"

text \<open>
  \<^verbatim>\<open>char_to_bin\<close>: \<^verbatim>\<open>ord(x)\<close>; when that raises \<^verbatim>\<open>TypeError\<close> (\<open>x\<close> is
  not one character long) the two-character escapes of the table are replaced and
  \<^verbatim>\<open>ord\<close> is tried again, this time letting the exception escape.
\<close>

definition char_to_bin :: "string \<Rightarrow> error + int" where
  "char_to_bin x =
     (if length x = 1 then Inr (of_char (hd x))
      else (let x = (if x = [backslash, CHR ''n''] then [CHR 0x0A]
                     else if x = [backslash, CHR ''0''] then [CHR 0x00]
                     else if x = [backslash, CHR ''v''] then [CHR 0x0B]
                     else if x = [backslash, CHR ''f''] then [CHR 0x0C]
                     else if x = [backslash, CHR ''r''] then [CHR 0x0D]
                     else if x = [backslash, CHR ''t''] then [CHR 0x09]
                     else x)
            in if length x = 1 then Inr (of_char (hd x)) else Inl PyTypeError))"

text \<open>
  \<^verbatim>\<open>s.encode().decode('unicode_escape')\<close> of the Python library, on the strings that
  passed the check above: the escapes \<^verbatim>\<open>\t \v \r \n \f \\ \'\<close>, the octal escape
  \<^verbatim>\<open>\0\<close> with up to two more octal digits, and \<^verbatim>\<open>UnicodeDecodeError\<close> for a
  backslash that ends the string. Other escapes cannot reach this point.
\<close>

definition is_octal :: "char \<Rightarrow> bool" where
  "is_octal c = (48 \<le> (of_char c :: nat) \<and> (of_char c :: nat) \<le> 55)"

definition octal_digit :: "char \<Rightarrow> nat" where
  "octal_digit c = of_char c - 48"

definition simple_escape :: "char \<Rightarrow> char option" where
  "simple_escape d =
     (if d = CHR ''t'' then Some (CHR 0x09)
      else if d = CHR ''v'' then Some (CHR 0x0B)
      else if d = CHR ''r'' then Some (CHR 0x0D)
      else if d = CHR ''n'' then Some (CHR 0x0A)
      else if d = CHR ''f'' then Some (CHR 0x0C)
      else if d = backslash then Some backslash
      else if d = quote then Some quote
      else None)"

fun unicode_escape :: "string \<Rightarrow> error + string" where
  "unicode_escape [] = Inr []"
| "unicode_escape [c] = (if c = backslash then Inl PyUnicodeDecodeError else Inr [c])"
| "unicode_escape (c # d # s) =
     (if c \<noteq> backslash then map_sum id ((#) c) (unicode_escape (d # s))
      else if d = CHR ''0'' then
        (case s of
           [] \<Rightarrow> Inr [CHR 0x00]
         | [o1] \<Rightarrow> (if is_octal o1 then Inr [char_of (octal_digit o1)]
                    else map_sum id ((#) (CHR 0x00)) (unicode_escape [o1]))
         | o1 # o2 # rest \<Rightarrow>
             (if is_octal o1 \<and> is_octal o2
                then map_sum id ((#) (char_of (8 * octal_digit o1 + octal_digit o2)))
                       (unicode_escape rest)
              else if is_octal o1
                then map_sum id ((#) (char_of (octal_digit o1))) (unicode_escape (o2 # rest))
              else map_sum id ((#) (CHR 0x00)) (unicode_escape (o1 # o2 # rest))))
      else (case simple_escape d of
              Some e \<Rightarrow> map_sum id ((#) e) (unicode_escape s)
            | None \<Rightarrow> Inl NotModelled))"

text \<open>
  \<^verbatim>\<open>_set_string_to_address\<close>: the terminating NUL first, then the characters in
  order.
\<close>

primrec set_string_loop :: "string \<Rightarrow> int \<Rightarrow> state \<Rightarrow> (error + unit) \<times> state" where
  "set_string_loop [] address st = (Inr (), st)"
| "set_string_loop (c # s) address st =
     (case char_to_bin [c] of
        Inl e \<Rightarrow> (Inl e, st)
      | Inr w \<Rightarrow> (case set_memory address (PyInt w) st of
                   (Inl e, st') \<Rightarrow> (Inl e, st')
                 | (Inr _, st') \<Rightarrow> set_string_loop s (address + 1) st'))"

definition set_string_to_address :: "string \<Rightarrow> int \<Rightarrow> state \<Rightarrow> (error + unit) \<times> state" where
  "set_string_to_address s address st =
     (case char_to_bin [CHR 0x00] of
        Inl e \<Rightarrow> (Inl e, st)
      | Inr w \<Rightarrow> (case set_memory (address + int (length s)) (PyInt w) st of
                   (Inl e, st') \<Rightarrow> (Inl e, st')
                 | (Inr _, st') \<Rightarrow> set_string_loop s address st'))"

definition literal_to_bin :: "string \<Rightarrow> pyval" where
  "literal_to_bin x =
     (if x = ''NULL'' then PyInt NULL_ADDRESS
      else if x = ''FALSE'' then PyInt FALSE_ENCODING
      else if x = ''TRUE'' then PyInt TRUE_ENCODING
      else PyNone)"

subsection \<open>Load-time validation (SynCProgram.\_\_init\_\_)\<close>

text \<open>\<^verbatim>\<open>_read_structure\<close>: the loop over \<^verbatim>\<open>enumerate(structure_fields)\<close>.\<close>

primrec read_structure_fields :: "string \<Rightarrow> string list \<Rightarrow> nat \<Rightarrow> state \<Rightarrow> error + state" where
  "read_structure_fields structure_name [] i st = Inr st"
| "read_structure_fields structure_name (field # rest) i st =
     (if field \<in> set rest then Inl SameFieldsNameStructureError
      else if field \<in> set (map fst (structures_fields_indexes st))
              \<and> list_ex (\<lambda>other. fst other \<noteq> structure_name \<and> field \<in> set (snd other))
                    (structures_fields st)
        then Inl SameFieldStructureError
      else read_structure_fields structure_name rest (Suc i)
             (st\<lparr>structures_fields_indexes :=
                   AList.update field i (structures_fields_indexes st)\<rparr>))"

definition read_structure :: "string \<Rightarrow> string list \<Rightarrow> state \<Rightarrow> error + state" where
  "read_structure structure_name structure_fields st =
     (if structure_name \<in> set (map fst (structures_fields st)) then Inl SameNameStructureError
      else read_structure_fields structure_name structure_fields 0
             (st\<lparr>structures_fields :=
                   AList.update structure_name structure_fields (structures_fields st)\<rparr>))"

text \<open>
  \<^verbatim>\<open>_read_function\<close>. Its loop raises at the first parameter that occurs again
  further on, that is, exactly when the parameter names are not distinct.
\<close>

definition read_function :: "pos \<Rightarrow> string \<Rightarrow> string list \<Rightarrow> node \<Rightarrow> state \<Rightarrow> error + state" where
  "read_function p function_name parameters block st =
     (if function_name \<in> set (map fst (functions_infos st)) then Inl SameNameFunctionError
      else if \<not> distinct parameters then Inl SameParametersNameFunctionError
      else Inr (st\<lparr>functions_infos :=
                    AList.update function_name
                      \<lparr>fi_parameters = parameters, fi_tree = block, fi_pos = p\<rparr>
                      (functions_infos st)\<rparr>))"

definition read_decl :: "decl \<Rightarrow> state \<Rightarrow> error + state" where
  "read_decl d st =
     (case d of
        Structdecl p name field_names \<Rightarrow> read_structure name field_names st
      | Fundecl p name parameters block \<Rightarrow> read_function p name parameters block st)"

definition read_structs_and_functions :: "prog \<Rightarrow> state \<Rightarrow> error + state" where
  "read_structs_and_functions tree st = chain (map read_decl (decls tree)) st"

text \<open>
  The two recursive searches of the tree visit every token in source order and act on
  the literals only; \<open>visit_literals\<close> is that traversal, with the action on a literal as
  its parameter.
\<close>

primrec visit_literals :: "(literal \<Rightarrow> state \<Rightarrow> error + state) \<Rightarrow> node \<Rightarrow> state \<Rightarrow> error + state"
  and visit_literals_param :: "(literal \<Rightarrow> state \<Rightarrow> error + state) \<Rightarrow> param \<Rightarrow> state \<Rightarrow> error + state"
  and visit_literals_branch :: "(literal \<Rightarrow> state \<Rightarrow> error + state) \<Rightarrow> branch \<Rightarrow> state \<Rightarrow> error + state"
where
  "visit_literals act (Atom p l) = act l"
| "visit_literals act (Affect p v e) = visit_literals act e"
| "visit_literals act (Arrayaffect p a i e) =
     chain [visit_literals act a, visit_literals act i, visit_literals act e]"
| "visit_literals act (Structaffect p s f e) = chain [visit_literals act s, visit_literals act e]"
| "visit_literals act (Derefaffect p q e) = chain [visit_literals act q, visit_literals act e]"
| "visit_literals act (Bracketexpr p e) = visit_literals act e"
| "visit_literals act (Binaryoperator p l opr r) = chain [visit_literals act l, visit_literals act r]"
| "visit_literals act (Boolexpr p l opr r) = chain [visit_literals act l, visit_literals act r]"
| "visit_literals act (Unaryoperator p opr e) = visit_literals act e"
| "visit_literals act (Refexpr p v) = Inr"
| "visit_literals act (Call p f ps) = chain (map (visit_literals_param act) ps)"
| "visit_literals act (Arraycall p a i) = chain [visit_literals act a, visit_literals act i]"
| "visit_literals act (Structcall p s f) = visit_literals act s"
| "visit_literals act (Ifexpr p bs) = chain (map (visit_literals_branch act) bs)"
| "visit_literals act (Forexpr p v a b blk) =
     chain [visit_literals act a, visit_literals act b, visit_literals act blk]"
| "visit_literals act (Whileexpr p c blk) = chain [visit_literals act c, visit_literals act blk]"
| "visit_literals act (Continuerule p) = Inr"
| "visit_literals act (Breakrule p) = Inr"
| "visit_literals act (Returnrule p e) = visit_literals act e"
| "visit_literals act (Block ns) = chain (map (visit_literals act) ns)"
| "visit_literals_param act (Expr e) = visit_literals act e"
| "visit_literals_param act (TypeTag t) = Inr"
| "visit_literals_branch act (Cond tok c blk) = chain [visit_literals act c, visit_literals act blk]"
| "visit_literals_branch act (Else blk) = visit_literals act blk"

definition visit_literals_decl :: "(literal \<Rightarrow> state \<Rightarrow> error + state) \<Rightarrow> decl \<Rightarrow> state \<Rightarrow> error + state" where
  "visit_literals_decl act d =
     (case d of
        Structdecl p name field_names \<Rightarrow> Inr
      | Fundecl p name parameters block \<Rightarrow> visit_literals act block)"

definition visit_literals_prog :: "(literal \<Rightarrow> state \<Rightarrow> error + state) \<Rightarrow> prog \<Rightarrow> state \<Rightarrow> error + state" where
  "visit_literals_prog act tree =
     chain ((case globalsdecl tree of
               None \<Rightarrow> []
             | Some gs \<Rightarrow> map (\<lambda>g. act (ga_value g)) gs)
            @ map (visit_literals_decl act) (decls tree))"

text \<open>\<^verbatim>\<open>_search_for_static_strings\<close>: what is done at a string token.\<close>

definition register_static_string :: "literal \<Rightarrow> state \<Rightarrow> error + state" where
  "register_static_string l st =
     (case l of
        String string_value \<Rightarrow>
          (if string_value \<in> set (map fst (read_only_strings_adress st)) then Inr st
           else (let st1 = st\<lparr>read_only_strings_adress :=
                               AList.update string_value (read_write_stack_limit st)
                                 (read_only_strings_adress st)\<rparr>
                 in if check_is_string_is_ascii_printable_with_escape string_value \<noteq> None
                    then Inl NonValidCharacterError
                    else and_then (unicode_escape string_value) (\<lambda>decoded.
                         and_then (committed (set_string_to_address decoded
                                                (read_write_stack_limit st1) st1)) (\<lambda>r.
                         Inr ((snd r)\<lparr>read_write_stack_limit :=
                                read_write_stack_limit (snd r) + (int (length decoded) + 1)\<rparr>)))))
      | _ \<Rightarrow> Inr st)"

definition search_for_static_strings :: "prog \<Rightarrow> state \<Rightarrow> error + state" where
  "search_for_static_strings tree = visit_literals_prog register_static_string tree"

text \<open>\<^verbatim>\<open>_search_int_char_float_errors\<close>: what is done at an integer or character token.\<close>

definition check_int_char_float :: "literal \<Rightarrow> state \<Rightarrow> error + state" where
  "check_int_char_float l st =
     (case l of
        Integer intval \<Rightarrow>
          (if - (2 ^ 31) \<le> intval \<and> intval < 2 ^ 31 then Inr st else Inl NonValidIntegerError)
      | Char c \<Rightarrow>
          (if check_is_string_is_ascii_printable_with_escape c \<noteq> None
           then Inl NonValidCharacterError else Inr st)
      | _ \<Rightarrow> Inr st)"

definition search_int_char_float_errors :: "prog \<Rightarrow> state \<Rightarrow> error + state" where
  "search_int_char_float_errors tree = visit_literals_prog check_int_char_float tree"

text \<open>
  \<^verbatim>\<open>_declare_globals\<close>: one \<^verbatim>\<open>globalaffect\<close>. The value of a literal is also what
  \<^verbatim>\<open>_execute_atom\<close> computes for it.
\<close>

definition literal_value :: "state \<Rightarrow> literal \<Rightarrow> error + pyval" where
  "literal_value st l =
     (case l of
        Integer n \<Rightarrow> Inr (PyInt (int_to_bin n False))
      | Floatn w \<Rightarrow> Inr (PyInt w)
      | Char c \<Rightarrow> and_then (char_to_bin c) (\<lambda>w. Inr (PyInt w))
      | String s \<Rightarrow> (case map_of (read_only_strings_adress st) s of
                      None \<Rightarrow> Inl PyKeyError
                    | Some a \<Rightarrow> Inr (PyInt a))
      | Keyword k \<Rightarrow> (if k \<in> set [''NULL'', ''TRUE'', ''FALSE''] then Inr (literal_to_bin k)
                      else Inl ExecutionError)
      | Ident x \<Rightarrow> Inl ExecutionError)"

definition declare_global :: "globalaffect \<Rightarrow> state \<Rightarrow> error + state" where
  "declare_global global_affect st =
     (let variable = ga_variable global_affect; value_literal = ga_value global_affect
      in if variable \<in> set (global_variables st) then Inl SameGlobalVariableNameError
         else if list_ex (\<lambda>f. variable \<in> set (fi_parameters (snd f))) (functions_infos st)
           then Inl GlobalVariableAndFunctionParameterWithSameNameError
         else (let st1 = st\<lparr>global_variables := global_variables st @ [variable]\<rparr>
               in and_then (literal_value st1 value_literal) (\<lambda>val.
                  and_then (get_variable_address st1 variable) (\<lambda>address.
                  and_then (committed (set_memory address val st1)) (\<lambda>r. Inr (snd r))))))"

definition declare_globals :: "prog \<Rightarrow> state \<Rightarrow> error + state" where
  "declare_globals tree st =
     (case globalsdecl tree of
        None \<Rightarrow> Inr st
      | Some globals_declaration \<Rightarrow> chain (map declare_global globals_declaration) st)"

definition check_main_function :: "state \<Rightarrow> error + state" where
  "check_main_function st =
     (case map_of (functions_infos st) ''main'' of
        None \<Rightarrow> Inl NoMainFunctionError
      | Some main_function \<Rightarrow>
          (if length (fi_parameters main_function) \<noteq> 0 then Inl MainFunctionWithParametersError
           else Inr st))"

text \<open>
  \<^verbatim>\<open>SynCProgram.__init__\<close>, lines 98--111: the five passes in the order of the source.
  \<open>lines\<close> is the standard input that the run will find.
\<close>

definition SynCProgram :: "string list \<Rightarrow> prog \<Rightarrow> error + state" where
  "SynCProgram lines tree =
     and_then (read_structs_and_functions tree (init_state lines)) (\<lambda>st.
     and_then (search_for_static_strings tree st) (\<lambda>st.
     and_then (search_int_char_float_errors tree st) (\<lambda>st.
     and_then (declare_globals tree st) (\<lambda>st.
     check_main_function st))))"

subsection \<open>Python values in the engine\<close>

text \<open>
  \<^verbatim>\<open>==\<close> of Python on the values above: a \<^verbatim>\<open>bool\<close> is the integer 0 or 1,
  tuples are compared component by component, values of different kinds differ.
\<close>

fun py_eq :: "pyval \<Rightarrow> pyval \<Rightarrow> bool" where
  "py_eq (PyInt a) (PyInt b) = (a = b)"
| "py_eq (PyInt a) (PyBool b) = (a = bool_to_bin b)"
| "py_eq (PyBool a) (PyInt b) = (bool_to_bin a = b)"
| "py_eq (PyBool a) (PyBool b) = (a = b)"
| "py_eq PyNone PyNone = True"
| "py_eq (PyStr a) (PyStr b) = (a = b)"
| "py_eq (PyReturn a) (PyReturn b) = py_eq a b"
| "py_eq _ _ = False"

text \<open>
  The integer that Python's arithmetic and order comparisons with an \<^verbatim>\<open>int\<close> see in
  a value; \<^verbatim>\<open>TypeError\<close> for \<^verbatim>\<open>None\<close>, strings and tuples.
\<close>

definition py_int :: "pyval \<Rightarrow> error + int" where
  "py_int v =
     (case v of
        PyInt i \<Rightarrow> Inr i
      | PyBool b \<Rightarrow> Inr (bool_to_bin b)
      | _ \<Rightarrow> Inl PyTypeError)"

text \<open>The converters of converter\_sync.py, applied to a value of the engine.\<close>

definition bin_to_int_of :: "pyval \<Rightarrow> error + int" where
  "bin_to_int_of x = and_then (py_int x) (\<lambda>i. Inr (bin_to_int i))"

definition bin_to_pointer_of :: "pyval \<Rightarrow> error + int" where
  "bin_to_pointer_of x = and_then (py_int x) bin_to_pointer"

definition bin_to_bool_of :: "pyval \<Rightarrow> error + bool" where
  "bin_to_bool_of x =
     (if py_eq x (PyInt 1) then Inr True
      else if py_eq x (PyInt 0) then Inr False
      else Inl WrongBooleanCodeError)"

definition bin_to_char_of :: "pyval \<Rightarrow> error + char" where
  "bin_to_char_of x = and_then (py_int x) bin_to_char"

text \<open>\<^verbatim>\<open>str\<close> of a Python \<^verbatim>\<open>int\<close> and of a \<^verbatim>\<open>bool\<close>.\<close>

fun str_nat :: "nat \<Rightarrow> string" where
  "str_nat n =
     (if n < 10 then [''0123456789'' ! n]
      else str_nat (n div 10) @ [''0123456789'' ! (n mod 10)])"

declare str_nat.simps [simp del]

definition str_int :: "int \<Rightarrow> string" where
  "str_int i = (if i < 0 then CHR ''-'' # str_nat (nat (- i)) else str_nat (nat i))"

definition str_bool :: "bool \<Rightarrow> string" where
  "str_bool b = (if b then ''True'' else ''False'')"

text \<open>
  \<^verbatim>\<open>bin_to_int\<close> and \<^verbatim>\<open>bin_to_pointer\<close> return a \<^verbatim>\<open>bool\<close> as it is (it is
  below \<^verbatim>\<open>2**31\<close>), and \<^verbatim>\<open>str\<close> then writes \<^verbatim>\<open>True\<close> or \<^verbatim>\<open>False\<close>:
  \<open>str_number x i\<close> is the text of the number \<open>i\<close> that was computed from the value \<open>x\<close>.
\<close>

definition str_number :: "pyval \<Rightarrow> int \<Rightarrow> string" where
  "str_number x i = (case x of PyBool b \<Rightarrow> str_bool b | _ \<Rightarrow> str_int i)"

text \<open>\<^verbatim>\<open>s[:size]\<close>.\<close>

definition slice_to :: "int \<Rightarrow> string \<Rightarrow> string" where
  "slice_to sz s = (if sz < 0 then take (nat (int (length s) + sz)) s else take (nat sz) s)"

text \<open>
  \<^verbatim>\<open>_get_string_from_address\<close>. The loop ends at a NUL, or with the exception of
  \<^verbatim>\<open>_get_memory\<close> at the top of the memory.
\<close>

function get_string_from_address :: "state \<Rightarrow> int \<Rightarrow> error + string" where
  "get_string_from_address st address =
     (case get_memory st address of
        Inl e \<Rightarrow> Inl e
      | Inr w \<Rightarrow>
          (case bin_to_char_of w of
             Inl e \<Rightarrow> Inl e
           | Inr c \<Rightarrow>
               (if c = CHR 0x00 then Inr []
                else map_sum id ((#) c) (get_string_from_address st (address + 1)))))"
  by pat_completeness auto

termination
proof (relation "measure (\<lambda>(st, address). nat (MEMORY_SIZE - address))")
  show "wf (measure (\<lambda>(st, address). nat (MEMORY_SIZE - address)))" by simp
next
  fix st :: state and address :: int and w c
  assume "get_memory st address = Inr w"
  then have "address < MEMORY_SIZE" by (simp add: get_memory_def split: if_splits)
  then show "((st, address + 1), (st, address))
               \<in> measure (\<lambda>(st, address). nat (MEMORY_SIZE - address))"
    by simp
qed

declare get_string_from_address.simps [simp del]

subsection \<open>Generators, consumers and control signals\<close>

text \<open>
  \<^verbatim>\<open>execute_node\<close> is a generator: it yields \<^verbatim>\<open>(elementary, value, line, char)\<close>
  once per operation, and the generator that consumes it yields each of them again,
  upwards, until \<^verbatim>\<open>main_function_iterator\<close> counts the elementary ones. A consumer
  either hides the value (\<^verbatim>\<open>yield elementary, None, ...\<close>: every operand position, and
  \<^verbatim>\<open>_execute_call\<close> over \<^verbatim>\<open>execute_function\<close>) and keeps the last value that is not
  \<^verbatim>\<open>None\<close>, or forwards it unchanged (a block, the block of an \<^verbatim>\<open>IF\<close>, parentheses,
  and a loop or \<^verbatim>\<open>execute_function\<close> for the values they do not react to). A loop
  stops consuming its block at the value \<^verbatim>\<open>'CONTINUE'\<close> or \<^verbatim>\<open>'BREAK'\<close>, and
  \<^verbatim>\<open>execute_function\<close> stops consuming the body at a tuple \<^verbatim>\<open>('RETURN', v)\<close>; a
  generator that is no longer consumed runs no further.

  The model runs a generator to its end in one call. \<open>consumers\<close> says who, above the
  node, sees its values unchanged: a loop, and \<^verbatim>\<open>execute_function\<close>. The outcome
  of a run is the signal at which the generator was left (if it was), the last value
  other than \<^verbatim>\<open>None\<close> that it passed upwards before that, and the state.
\<close>

datatype signal = Continue_signal | Break_signal | Return_signal pyval

record consumers =
  loop_above :: bool
  function_above :: bool

type_synonym outcome = "signal option \<times> pyval \<times> state"

type_synonym exec = "consumers \<Rightarrow> node \<Rightarrow> state \<Rightarrow> error + outcome"

definition operand_position :: consumers where
  "operand_position = \<lparr>loop_above = False, function_above = False\<rparr>"

definition function_body :: consumers where
  "function_body = \<lparr>loop_above = False, function_above = True\<rparr>"

text \<open>
  One yield reaching \<^verbatim>\<open>main_function_iterator\<close>: an elementary one is counted and
  its position is yielded to the caller.
\<close>

definition emit :: "bool \<Rightarrow> pos \<Rightarrow> state \<Rightarrow> state" where
  "emit elementary p st =
     (if elementary
      then st\<lparr>nb_elementary_operations := Suc (nb_elementary_operations st),
              trace := trace st @ [(p, Suc (nb_elementary_operations st))]\<rparr>
      else st)"

text \<open>One \<^verbatim>\<open>yield elementary, value, line, char\<close> of a node, under the given consumers.\<close>

definition yield_op :: "consumers \<Rightarrow> bool \<Rightarrow> pyval \<Rightarrow> pos \<Rightarrow> state \<Rightarrow> error + outcome" where
  "yield_op c elementary v p st =
     Inr (if loop_above c \<and> py_eq v (PyStr ''CONTINUE'') then (Some Continue_signal, PyNone, emit elementary p st)
          else if loop_above c \<and> py_eq v (PyStr ''BREAK'') then (Some Break_signal, PyNone, emit elementary p st)
          else (case v of
                  PyReturn w \<Rightarrow>
                    (if function_above c then (Some (Return_signal w), PyNone, emit elementary p st)
                     else (None, v, emit elementary p st))
                | _ \<Rightarrow> (None, v, emit elementary p st)))"

text \<open>
  A sub-generator consumed in an operand position: run to its end, its values hidden,
  the last one that is not \<^verbatim>\<open>None\<close> kept.
\<close>

definition operand :: "exec \<Rightarrow> node \<Rightarrow> state \<Rightarrow> error + (pyval \<times> state)" where
  "operand rec n st = and_then (rec operand_position n st) (\<lambda>r. Inr (fst (snd r), snd (snd r)))"

definition later_value :: "pyval \<Rightarrow> pyval \<Rightarrow> pyval" where
  "later_value earlier v = (if v = PyNone then earlier else v)"

subsection \<open>The node executors of \<^verbatim>\<open>execute_node\<close>\<close>

definition execute_atom :: "consumers \<Rightarrow> pos \<Rightarrow> literal \<Rightarrow> state \<Rightarrow> error + outcome" where
  "execute_atom c p l st =
     and_then (case l of
                 Ident variable \<Rightarrow> and_then (get_variable_address st variable) (get_memory st)
               | _ \<Rightarrow> literal_value st l)
       (\<lambda>val. yield_op c False val p st)"

text \<open>
  \<^verbatim>\<open>variable not in self.global_variables and variable not in self.local_variables[-1]\<close>,
  negated, and \<^verbatim>\<open>self.local_variables[-1].append(variable)\<close>.
\<close>

definition is_declared :: "state \<Rightarrow> string \<Rightarrow> error + bool" where
  "is_declared st variable =
     (if variable \<in> set (global_variables st) then Inr True
      else if local_variables st = [] then Inl PyIndexError
      else Inr (variable \<in> set (last (local_variables st))))"

definition append_local :: "string \<Rightarrow> state \<Rightarrow> state" where
  "append_local variable st =
     st\<lparr>local_variables := butlast (local_variables st) @ [last (local_variables st) @ [variable]]\<rparr>"

definition execute_affect :: "exec \<Rightarrow> consumers \<Rightarrow> pos \<Rightarrow> string \<Rightarrow> node \<Rightarrow> state \<Rightarrow> error + outcome" where
  "execute_affect rec c p variable expr st =
     and_then (is_declared st variable) (\<lambda>declared.
     let st1 = (if declared then st else append_local variable st)
     in if \<not> declared \<and> \<not> check_memory_limit_exceeded st1 None then Inl MemoryExceededError
        else and_then (get_variable_address st1 variable) (\<lambda>address.
             and_then (operand rec expr st1) (\<lambda>r.
             and_then (committed (set_memory address (fst r) (snd r))) (\<lambda>w.
             yield_op c True PyNone p (snd w)))))"

definition execute_arrayaffect :: "exec \<Rightarrow> consumers \<Rightarrow> pos \<Rightarrow> node \<Rightarrow> node \<Rightarrow> node \<Rightarrow> state \<Rightarrow> error + outcome" where
  "execute_arrayaffect rec c p array index expr st =
     and_then (operand rec array st) (\<lambda>a.
     and_then (operand rec index (snd a)) (\<lambda>i.
     and_then (operand rec expr (snd i)) (\<lambda>r.
     and_then (bin_to_pointer_of (fst a)) (\<lambda>address.
     and_then (bin_to_int_of (fst i)) (\<lambda>index_value.
     and_then (committed (set_memory (address + index_value) (fst r) (snd r))) (\<lambda>w.
     yield_op c True PyNone p (snd w)))))))"

definition execute_structaffect :: "exec \<Rightarrow> consumers \<Rightarrow> pos \<Rightarrow> node \<Rightarrow> string \<Rightarrow> node \<Rightarrow> state \<Rightarrow> error + outcome" where
  "execute_structaffect rec c p struct field expr st =
     and_then (operand rec struct st) (\<lambda>s.
     and_then (operand rec expr (snd s)) (\<lambda>r.
     and_then (bin_to_pointer_of (fst s)) (\<lambda>address.
     case map_of (structures_fields_indexes (snd r)) field of
       None \<Rightarrow> Inl UndeclaredFieldError
     | Some field_index \<Rightarrow>
         and_then (committed (set_memory (address + int field_index) (fst r) (snd r))) (\<lambda>w.
         yield_op c True PyNone p (snd w)))))"

definition execute_derefaffect :: "exec \<Rightarrow> consumers \<Rightarrow> pos \<Rightarrow> node \<Rightarrow> node \<Rightarrow> state \<Rightarrow> error + outcome" where
  "execute_derefaffect rec c p pointer expr st =
     and_then (operand rec pointer st) (\<lambda>q.
     and_then (operand rec expr (snd q)) (\<lambda>r.
     and_then (bin_to_pointer_of (fst q)) (\<lambda>address.
     and_then (committed (set_memory address (fst r) (snd r))) (\<lambda>w.
     yield_op c True PyNone p (snd w)))))"

definition execute_bracketexpr :: "exec \<Rightarrow> consumers \<Rightarrow> node \<Rightarrow> state \<Rightarrow> error + outcome" where
  "execute_bracketexpr rec c child st = rec c child st"

text \<open>
  The result of \<^verbatim>\<open>_execute_binaryoperator\<close> from the two operand values. Python's
  \<^verbatim>\<open>//\<close> and \<^verbatim>\<open>%\<close> round towards minus infinity, as \<open>div\<close> and \<open>mod\<close> do on
  \<^typ>\<open>int\<close>. The operators on floating-point numbers are not modelled.
\<close>

definition binary_operation :: "string \<Rightarrow> pyval \<Rightarrow> pyval \<Rightarrow> error + pyval" where
  "binary_operation operator binary_left_value binary_right_value =
     (if operator \<in> set [''+'', ''-'', ''/'', ''*'', ''%'', ''<='', ''>='', ''<'', ''>''] then
        and_then (bin_to_int_of binary_left_value) (\<lambda>left_value.
        and_then (bin_to_int_of binary_right_value) (\<lambda>right_value.
          if operator = ''+'' then Inr (PyInt (int_to_bin (left_value + right_value) True))
          else if operator = ''-'' then Inr (PyInt (int_to_bin (left_value - right_value) True))
          else if operator = ''*'' then Inr (PyInt (int_to_bin (left_value * right_value) True))
          else if operator = ''/'' then
            (if right_value = 0 then Inl MathDomainError
             else Inr (PyInt (int_to_bin (left_value div right_value) True)))
          else if operator = ''%'' then
            (if right_value = 0 then Inl MathDomainError
             else Inr (PyInt (int_to_bin (left_value mod right_value) True)))
          else if operator = ''<='' then Inr (PyInt (bool_to_bin (left_value \<le> right_value)))
          else if operator = ''>='' then Inr (PyInt (bool_to_bin (left_value \<ge> right_value)))
          else if operator = ''<'' then Inr (PyInt (bool_to_bin (left_value < right_value)))
          else Inr (PyInt (bool_to_bin (left_value > right_value)))))
      else if operator \<in> set [''+.'', ''-.'', ''/.'', ''*.'', ''<=.'', ''>=.'', ''<.'', ''>.'']
        then Inl NotModelled
      else if operator = ''=='' then Inr (PyInt (bool_to_bin (py_eq binary_left_value binary_right_value)))
      else if operator = ''!='' then Inr (PyInt (bool_to_bin (\<not> py_eq binary_left_value binary_right_value)))
      else Inl ExecutionError)"

definition execute_binaryoperator :: "exec \<Rightarrow> consumers \<Rightarrow> pos \<Rightarrow> node \<Rightarrow> string \<Rightarrow> node \<Rightarrow> state \<Rightarrow> error + outcome" where
  "execute_binaryoperator rec c p left_expr operator right_expr st =
     and_then (operand rec left_expr st) (\<lambda>l.
     and_then (operand rec right_expr (snd l)) (\<lambda>r.
     and_then (binary_operation operator (fst l) (fst r)) (\<lambda>result.
     yield_op c True result p (snd r))))"

text \<open>\<^verbatim>\<open>_execute_boolbinaryoperator\<close>; its result is a Python \<^verbatim>\<open>bool\<close>.\<close>

definition execute_boolbinaryoperator :: "exec \<Rightarrow> consumers \<Rightarrow> pos \<Rightarrow> node \<Rightarrow> string \<Rightarrow> node \<Rightarrow> state \<Rightarrow> error + outcome" where
  "execute_boolbinaryoperator rec c p left_expr operator right_expr st =
     and_then (operand rec left_expr st) (\<lambda>l.
     and_then (bin_to_bool_of (fst l)) (\<lambda>left_value.
       if operator \<noteq> ''AND'' \<and> operator \<noteq> ''OR'' then Inl ExecutionError
       else if operator = ''AND'' \<and> \<not> left_value then yield_op c True (PyBool False) p (snd l)
       else if operator = ''OR'' \<and> left_value then yield_op c True (PyBool True) p (snd l)
       else and_then (operand rec right_expr (snd l)) (\<lambda>r.
            and_then (bin_to_bool_of (fst r)) (\<lambda>result.
            yield_op c True (PyBool result) p (snd r)))))"

definition execute_unaryoperator :: "exec \<Rightarrow> consumers \<Rightarrow> pos \<Rightarrow> string \<Rightarrow> node \<Rightarrow> state \<Rightarrow> error + outcome" where
  "execute_unaryoperator rec c p operator expr st =
     and_then (operand rec expr st) (\<lambda>r.
     and_then (if operator = ''NOT'' then
                 and_then (bin_to_bool_of (fst r)) (\<lambda>val. Inr (PyInt (bool_to_bin (\<not> val))))
               else if operator = ''$'' then
                 and_then (bin_to_pointer_of (fst r)) (get_memory (snd r))
               else Inl ExecutionError) (\<lambda>result.
     yield_op c True result p (snd r)))"

definition execute_refexpr :: "consumers \<Rightarrow> pos \<Rightarrow> string \<Rightarrow> state \<Rightarrow> error + outcome" where
  "execute_refexpr c p variable_name st =
     and_then (get_variable_address st variable_name) (\<lambda>address.
     yield_op c True (PyInt (pointer_to_bin address)) p st)"

definition execute_arraycall :: "exec \<Rightarrow> consumers \<Rightarrow> pos \<Rightarrow> node \<Rightarrow> node \<Rightarrow> state \<Rightarrow> error + outcome" where
  "execute_arraycall rec c p array index st =
     and_then (operand rec array st) (\<lambda>a.
     and_then (operand rec index (snd a)) (\<lambda>i.
     and_then (bin_to_pointer_of (fst a)) (\<lambda>address.
     and_then (bin_to_int_of (fst i)) (\<lambda>index_value.
     and_then (get_memory (snd i) (address + index_value)) (\<lambda>result.
     yield_op c True result p (snd i))))))"

definition execute_structcall :: "exec \<Rightarrow> consumers \<Rightarrow> pos \<Rightarrow> node \<Rightarrow> string \<Rightarrow> state \<Rightarrow> error + outcome" where
  "execute_structcall rec c p struct field st =
     and_then (operand rec struct st) (\<lambda>s.
     and_then (bin_to_pointer_of (fst s)) (\<lambda>address.
     case map_of (structures_fields_indexes (snd s)) field of
       None \<Rightarrow> Inl UndeclaredFieldError
     | Some field_index \<Rightarrow>
         and_then (get_memory (snd s) (address + int field_index)) (\<lambda>result.
         yield_op c True result p (snd s))))"

subsection \<open>Function calls\<close>

definition expected_nb_parameters :: "state \<Rightarrow> string \<Rightarrow> nat \<Rightarrow> error + bool" where
  "expected_nb_parameters st function_name n =
     (if function_name \<in> set [''READ'', ''RAND'', ''FLUSH'', ''FLUSHERR''] then Inr (n = 0)
      else if function_name \<in> set [''IABS'', ''FABS'', ''COS'', ''SIN'', ''TAN'', ''SQRT'', ''EXP'',
                ''LN'', ''SH'', ''CH'', ''TH'', ''CEIL'', ''FLOOR'', ''ROUND'', ''MALLOC_STRUCT'',
                ''FREE'', ''SRAND'', ''I2F'', ''F2I'', ''S2I'', ''S2F'', ''V2B'',
                ''ELEMENTARY_OPERATIONS'']
        then Inr (n = 1)
      else if function_name \<in> set [''POW''] then Inr (n = 2)
      else if function_name \<in> set [''I2S'', ''F2S''] then Inr (n = 3)
      else if function_name \<in> set [''PRINT'', ''PRINTERR''] then Inr True
      else if function_name = ''MALLOC'' then Inr (n \<ge> 1)
      else (case map_of (functions_infos st) function_name of
              None \<Rightarrow> Inl UndeclaredFunctionError
            | Some info \<Rightarrow> Inr (n = length (fi_parameters info))))"

definition type_keywords :: "string list" where
  "type_keywords = [''INT'', ''FLOAT'', ''CHAR'', ''BOOL'', ''STRING'', ''POINTER'']"

text \<open>
  The loop that computes \<^verbatim>\<open>binary_parameters\<close>: a type keyword is appended as it is,
  an expression is consumed as an operand. (Any other token in a parameter position has
  no entry in \<^verbatim>\<open>type_to_function\<close>.)
\<close>

primrec evaluate_parameters :: "exec \<Rightarrow> param list \<Rightarrow> state \<Rightarrow> error + (pyval list \<times> state)" where
  "evaluate_parameters rec [] st = Inr ([], st)"
| "evaluate_parameters rec (parameter # rest) st =
     (case parameter of
        TypeTag t \<Rightarrow>
          (if t \<in> set type_keywords
           then and_then (evaluate_parameters rec rest st) (\<lambda>r. Inr (PyStr t # fst r, snd r))
           else Inl PyKeyError)
      | Expr e \<Rightarrow>
          and_then (operand rec e st) (\<lambda>v.
          and_then (evaluate_parameters rec rest (snd v)) (\<lambda>r. Inr (fst v # fst r, snd r))))"

text \<open>
  \<^verbatim>\<open>MALLOC_STRUCT\<close> takes \<^verbatim>\<open>parameters[0][1][1]\<close>, the text of the identifier when
  the parameter is one; what that indexing gives on other parameters is not modelled.
\<close>

definition malloc_struct_parameter :: "param \<Rightarrow> error + pyval" where
  "malloc_struct_parameter parameter =
     (case parameter of
        Expr (Atom p (Ident name)) \<Rightarrow> Inr (PyStr name)
      | _ \<Rightarrow> Inl NotModelled)"

text \<open>The initialisation loop of \<^verbatim>\<open>MALLOC\<close> over \<^verbatim>\<open>binary_parameters[1:]\<close>.\<close>

primrec malloc_initialise :: "pos \<Rightarrow> int \<Rightarrow> pyval list \<Rightarrow> state \<Rightarrow> error + state" where
  "malloc_initialise p address [] st = Inr st"
| "malloc_initialise p address (binary_parameter # rest) st =
     and_then (committed (set_memory address binary_parameter st)) (\<lambda>w.
     malloc_initialise p (address + 1) rest (emit True p (snd w)))"

text \<open>\<^verbatim>\<open>PRINT\<close> and \<^verbatim>\<open>PRINTERR\<close>: the text of one value under the current type.\<close>

definition print_value :: "state \<Rightarrow> string option \<Rightarrow> pyval \<Rightarrow> error + string" where
  "print_value st ty parameter =
     (if ty = None \<or> ty = Some ''STRING'' then
        and_then (bin_to_pointer_of parameter) (get_string_from_address st)
      else if ty = Some ''INT'' then
        and_then (bin_to_int_of parameter) (\<lambda>i. Inr (str_number parameter i))
      else if ty = Some ''FLOAT'' then Inl NotModelled
      else if ty = Some ''CHAR'' then and_then (bin_to_char_of parameter) (\<lambda>ch. Inr [ch])
      else if ty = Some ''BOOL'' then and_then (bin_to_bool_of parameter) (\<lambda>b. Inr (str_bool b))
      else if ty = Some ''POINTER'' then
        and_then (bin_to_pointer_of parameter) (\<lambda>i. Inr (str_number parameter i))
      else Inl ExecutionError)"

definition write_text :: "bool \<Rightarrow> string \<Rightarrow> state \<Rightarrow> state" where
  "write_text to_stderr s st =
     (if to_stderr then st\<lparr>stderr := stderr st @ s\<rparr> else st\<lparr>stdout := stdout st @ s\<rparr>)"

definition is_type_keyword :: "pyval \<Rightarrow> string option" where
  "is_type_keyword parameter =
     (case parameter of
        PyStr s \<Rightarrow> (if s \<in> set [''INT'', ''FLOAT'', ''BOOL'', ''POINTER'', ''STRING'', ''CHAR'']
                    then Some s else None)
      | _ \<Rightarrow> None)"

primrec print_loop :: "bool \<Rightarrow> pyval list \<Rightarrow> string option \<Rightarrow> state \<Rightarrow> error + state" where
  "print_loop to_stderr [] ty st = Inr st"
| "print_loop to_stderr (parameter # rest) ty st =
     (case is_type_keyword parameter of
        Some t \<Rightarrow>
          (if ty \<noteq> None then Inl InvalidTypeParameterInFunctionError
           else print_loop to_stderr rest (Some t) st)
      | None \<Rightarrow>
          and_then (print_value st ty parameter) (\<lambda>s.
          print_loop to_stderr rest None (write_text to_stderr s st)))"

text \<open>
  \<^verbatim>\<open>READ\<close>. Each round of the outer loop empties \<^verbatim>\<open>input_buffer\<close>, appending its
  binary digits to \<^verbatim>\<open>bin\<close>, and asks for a further line while \<^verbatim>\<open>bin\<close> is shorter
  than 32. \<open>read_loop lines bin buffer\<close> is the loop on the lines that \<^verbatim>\<open>input()\<close>
  has still to return; it gives \<^verbatim>\<open>bin\<close> and the lines not yet read.
  \<^verbatim>\<open>input()\<close> with no line left raises.
\<close>

primrec read_loop :: "string list \<Rightarrow> string \<Rightarrow> char list \<Rightarrow> error + (string \<times> string list)" where
  "read_loop [] bin buffer =
     (let bin = bin @ filter (\<lambda>ch. ch \<in> set ''01'') buffer
      in if length bin < MAX_NB_BITS then Inl NoInputAvailable else Inr (bin, []))"
| "read_loop (line # lines) bin buffer =
     (let bin = bin @ filter (\<lambda>ch. ch \<in> set ''01'') buffer
      in if length bin < MAX_NB_BITS then read_loop lines bin line else Inr (bin, line # lines))"

text \<open>\<^verbatim>\<open>int(bin, 2)\<close> on a string of binary digits.\<close>

definition int_base_2 :: "string \<Rightarrow> int" where
  "int_base_2 bin = foldl (\<lambda>acc ch. 2 * acc + (if ch = CHR ''1'' then 1 else 0)) 0 bin"

definition execute_read :: "state \<Rightarrow> error + (pyval \<times> state)" where
  "execute_read st =
     and_then (read_loop (stdin st) [] (input_buffer st)) (\<lambda>r.
     Inr (PyInt (int_base_2 (fst r)), st\<lparr>input_buffer := [], stdin := snd r\<rparr>))"

text \<open>The loop of \<^verbatim>\<open>execute_function\<close> that stores the parameter values.\<close>

primrec set_parameters :: "int \<Rightarrow> pyval list \<Rightarrow> state \<Rightarrow> error + state" where
  "set_parameters address [] st = Inr st"
| "set_parameters address (param # rest) st =
     and_then (committed (set_memory address param st)) (\<lambda>w.
     set_parameters (address + 1) rest (snd w))"

text \<open>
  \<^verbatim>\<open>execute_function\<close>, consumed to its end: the last value other than \<^verbatim>\<open>None\<close> that
  it yields (the value of a \<^verbatim>\<open>RETURN\<close> if the body was left at one), and the state.
  \<^verbatim>\<open>parameters[-1]\<close> in the \<^verbatim>\<open>raise\<close> statement is evaluated first, and raises
  \<^verbatim>\<open>IndexError\<close> for a function without parameters.
\<close>

definition execute_function :: "exec \<Rightarrow> string \<Rightarrow> pyval list \<Rightarrow> state \<Rightarrow> error + (pyval \<times> state)" where
  "execute_function rec function_name params st =
     (case map_of (functions_infos st) function_name of
        None \<Rightarrow> Inl PyKeyError
      | Some info \<Rightarrow>
          (let parameters = fi_parameters info;
               st1 = st\<lparr>local_variables := local_variables st @ [parameters]\<rparr>
           in if \<not> check_memory_limit_exceeded st1 None
              then (if parameters = [] then Inl PyIndexError else Inl MemoryExceededError)
              else and_then (if length parameters \<noteq> 0
                             then and_then (get_variable_address st1 (parameters ! 0)) (\<lambda>address0.
                                  set_parameters address0 params st1)
                             else Inr st1) (\<lambda>st2.
                   and_then (rec function_body (fi_tree info) st2) (\<lambda>r.
                   Inr (case fst r of
                          Some (Return_signal w) \<Rightarrow> later_value (fst (snd r)) w
                        | _ \<Rightarrow> fst (snd r),
                        (snd (snd r))\<lparr>local_variables := butlast (local_variables (snd (snd r)))\<rparr>)))))"

text \<open>
  The part of \<^verbatim>\<open>_execute_call\<close> between the computation of the parameters and the
  final yield: \<^verbatim>\<open>result\<close> and the state. Floating-point numbers, the random
  generator and the parsing of numbers by Python's \<^verbatim>\<open>int\<close> and \<^verbatim>\<open>float\<close> are not
  modelled.
\<close>

definition call_function :: "exec \<Rightarrow> pos \<Rightarrow> string \<Rightarrow> pyval list \<Rightarrow> state \<Rightarrow> error + (pyval \<times> state)" where
  "call_function rec p function_name binary_parameters st =
     (let result = PyInt (int_to_bin 0 False)
      in if function_name \<in> set [''FABS'', ''COS'', ''SIN'', ''TAN'', ''SQRT'', ''EXP'', ''LN'', ''SH'',
                ''CH'', ''TH'', ''CEIL'', ''FLOOR'', ''ROUND'']
           then Inl NotModelled
         else if function_name = ''IABS'' then
           and_then (bin_to_int_of (binary_parameters ! 0)) (\<lambda>val.
           Inr (PyInt (int_to_bin (abs val) False), st))
         else if function_name = ''POW'' then Inl NotModelled
         else if function_name = ''MALLOC'' then
           and_then (bin_to_int_of (binary_parameters ! 0)) (\<lambda>sz.
           and_then (committed (malloc sz st)) (\<lambda>m.
           and_then (malloc_initialise p (fst m) (tl binary_parameters) (snd m)) (\<lambda>st1.
           Inr (PyInt (pointer_to_bin (fst m)), st1))))
         else if function_name = ''MALLOC_STRUCT'' then
           (case binary_parameters ! 0 of
              PyStr struct_name \<Rightarrow>
                (case map_of (structures_fields st) struct_name of
                   None \<Rightarrow> Inl UndeclaredStructureError
                 | Some field_names \<Rightarrow>
                     and_then (committed (malloc (int (length field_names)) st)) (\<lambda>m.
                     Inr (PyInt (pointer_to_bin (fst m)), snd m)))
            | _ \<Rightarrow> Inl UndeclaredStructureError)
         else if function_name = ''FREE'' then
           and_then (bin_to_pointer_of (binary_parameters ! 0)) (\<lambda>pointer.
           and_then (committed (free pointer st)) (\<lambda>w. Inr (result, snd w)))
         else if function_name \<in> set [''PRINT'', ''PRINTERR''] then
           and_then (print_loop (function_name \<noteq> ''PRINT'') binary_parameters None st) (\<lambda>st1.
           Inr (result, st1))
         else if function_name \<in> set [''FLUSH'', ''FLUSHERR''] then Inr (result, st)
         else if function_name = ''READ'' then execute_read st
         else if function_name = ''RAND'' then Inl NotModelled
         else if function_name = ''SRAND'' then Inl NotModelled
         else if function_name = ''I2F'' then Inl NotModelled
         else if function_name = ''F2I'' then Inl NotModelled
         else if function_name = ''I2S'' then
           and_then (bin_to_int_of (binary_parameters ! 0)) (\<lambda>val.
           and_then (bin_to_pointer_of (binary_parameters ! 1)) (\<lambda>address.
           and_then (bin_to_int_of (binary_parameters ! 2)) (\<lambda>sz.
           and_then (committed (set_string_to_address
                                  (slice_to sz (str_number (binary_parameters ! 0) val)) address st))
             (\<lambda>w. Inr (result, snd w)))))
         else if function_name = ''F2S'' then Inl NotModelled
         else if function_name = ''S2I'' then Inl NotModelled
         else if function_name = ''S2F'' then Inl NotModelled
         else if function_name = ''V2B'' then
           Inr (PyInt (bool_to_bin (\<not> py_eq (binary_parameters ! 0) (PyInt 0))), st)
         else if function_name = ''ELEMENTARY_OPERATIONS'' then
           (if py_eq (binary_parameters ! 0) (PyStr ''INT'')
              then Inr (PyInt (int_to_bin (int (nb_elementary_operations st)) True), st)
            else if py_eq (binary_parameters ! 0) (PyStr ''FLOAT'') then Inl NotModelled
            else Inl ExecutionError)
         else and_then (execute_function rec function_name binary_parameters st) (\<lambda>r.
              Inr (later_value result (fst r), snd r)))"

definition execute_call :: "exec \<Rightarrow> consumers \<Rightarrow> pos \<Rightarrow> string \<Rightarrow> param list \<Rightarrow> state \<Rightarrow> error + outcome" where
  "execute_call rec c p function_name parameters st =
     and_then (expected_nb_parameters st function_name (length parameters)) (\<lambda>expected.
     if \<not> expected then Inl IncorrectNumberOfParametersInFunction
     else and_then (if function_name = ''MALLOC_STRUCT''
                    then and_then (malloc_struct_parameter (parameters ! 0)) (\<lambda>name. Inr ([name], st))
                    else evaluate_parameters rec parameters st) (\<lambda>b.
          and_then (call_function rec p function_name (fst b) (snd b)) (\<lambda>r.
          yield_op c True (fst r) p (snd r))))"

subsection \<open>Conditions, loops and blocks\<close>

text \<open>
  \<^verbatim>\<open>_execute_ifexpr\<close>: the \<^verbatim>\<open>while\<close> loop over the branches. The block that is
  chosen is forwarded unchanged.
\<close>

primrec execute_branches :: "exec \<Rightarrow> consumers \<Rightarrow> pos \<Rightarrow> branch list \<Rightarrow> state \<Rightarrow> error + outcome" where
  "execute_branches rec c p [] st = Inr (None, PyNone, st)"
| "execute_branches rec c p (b # bs) st =
     (case b of
        Cond tok condition block \<Rightarrow>
          (if tok \<in> set [''IF'', ''ELIF''] then
             and_then (operand rec condition st) (\<lambda>r.
             and_then (bin_to_bool_of (fst r)) (\<lambda>cond.
               if cond then rec c block (emit True p (snd r))
               else execute_branches rec c p bs (emit True p (snd r))))
           else execute_branches rec c p bs st)
      | Else block \<Rightarrow> rec c block st)"

text \<open>
  The \<^verbatim>\<open>while\<close> loop of \<^verbatim>\<open>_execute_forexpr\<close>, from the test of the guard on.
  \<open>v\<close> is the last value forwarded so far. The first argument bounds the number of
  iterations.
\<close>

primrec for_loop :: "nat \<Rightarrow> exec \<Rightarrow> consumers \<Rightarrow> pos \<Rightarrow> int \<Rightarrow> int \<Rightarrow> node \<Rightarrow> pyval \<Rightarrow> state \<Rightarrow> error + outcome" where
  "for_loop 0 rec c p address end_expr block v st = Inl OutOfFuel"
| "for_loop (Suc fuel) rec c p address end_expr block v st =
     and_then (and_then (get_memory st address) bin_to_int_of) (\<lambda>i.
       if \<not> i < end_expr then Inr (None, v, st)
       else and_then (rec (c\<lparr>loop_above := True\<rparr>) block st) (\<lambda>r.
              case fst r of
                Some Break_signal \<Rightarrow> Inr (None, later_value v (fst (snd r)), snd (snd r))
              | Some (Return_signal w) \<Rightarrow>
                  Inr (Some (Return_signal w), later_value v (fst (snd r)), snd (snd r))
              | _ \<Rightarrow>
                  and_then (and_then (get_memory (snd (snd r)) address) bin_to_int_of) (\<lambda>j.
                  and_then (committed (set_memory address (PyInt (int_to_bin (j + 1) False))
                                         (snd (snd r)))) (\<lambda>w.
                  for_loop fuel rec c p address end_expr block (later_value v (fst (snd r)))
                    (emit True p (emit True p (emit True p (snd w))))))))"

definition execute_forexpr :: "nat \<Rightarrow> exec \<Rightarrow> consumers \<Rightarrow> pos \<Rightarrow> string \<Rightarrow> node \<Rightarrow> node \<Rightarrow> node \<Rightarrow> state \<Rightarrow> error + outcome" where
  "execute_forexpr fuel rec c p variable start_expr end_expr block st =
     and_then (is_declared st variable) (\<lambda>declared.
     let st1 = (if declared then st else append_local variable st)
     in and_then (get_variable_address st1 variable) (\<lambda>address.
        and_then (operand rec start_expr st1) (\<lambda>s.
        and_then (bin_to_int_of (fst s)) (\<lambda>start_value.
        and_then (operand rec end_expr (snd s)) (\<lambda>e.
        and_then (bin_to_int_of (fst e)) (\<lambda>end_value.
        and_then (committed (set_memory address (PyInt (int_to_bin start_value False)) (snd e))) (\<lambda>w.
        for_loop fuel rec c p address end_value block PyNone
          (emit True p (emit True p (snd w))))))))))"

text \<open>\<^verbatim>\<open>_execute_whileexpr\<close>; the first argument bounds the number of iterations.\<close>

primrec while_loop :: "nat \<Rightarrow> exec \<Rightarrow> consumers \<Rightarrow> pos \<Rightarrow> node \<Rightarrow> node \<Rightarrow> pyval \<Rightarrow> state \<Rightarrow> error + outcome" where
  "while_loop 0 rec c p condition_node block v st = Inl OutOfFuel"
| "while_loop (Suc fuel) rec c p condition_node block v st =
     and_then (operand rec condition_node st) (\<lambda>b.
     and_then (bin_to_bool_of (fst b)) (\<lambda>condition.
       if condition then
         and_then (rec (c\<lparr>loop_above := True\<rparr>) block (emit True p (snd b))) (\<lambda>r.
           case fst r of
             Some Break_signal \<Rightarrow> Inr (None, later_value v (fst (snd r)), snd (snd r))
           | Some (Return_signal w) \<Rightarrow>
               Inr (Some (Return_signal w), later_value v (fst (snd r)), snd (snd r))
           | _ \<Rightarrow> while_loop fuel rec c p condition_node block (later_value v (fst (snd r)))
                    (snd (snd r)))
       else Inr (None, v, emit True p (snd b))))"

definition execute_continuerule :: "consumers \<Rightarrow> pos \<Rightarrow> state \<Rightarrow> error + outcome" where
  "execute_continuerule c p st = yield_op c False (PyStr ''CONTINUE'') p st"

definition execute_breakrule :: "consumers \<Rightarrow> pos \<Rightarrow> state \<Rightarrow> error + outcome" where
  "execute_breakrule c p st = yield_op c False (PyStr ''BREAK'') p st"

definition execute_returnrule :: "exec \<Rightarrow> consumers \<Rightarrow> pos \<Rightarrow> node \<Rightarrow> state \<Rightarrow> error + outcome" where
  "execute_returnrule rec c p expr st =
     and_then (operand rec expr st) (\<lambda>r.
     yield_op c False (PyReturn (fst r)) p (snd r))"

text \<open>
  \<^verbatim>\<open>_execute_block\<close>: the statements in order, everything forwarded; the block is left
  where one of its statements is.
\<close>

primrec execute_block :: "exec \<Rightarrow> consumers \<Rightarrow> node list \<Rightarrow> pyval \<Rightarrow> state \<Rightarrow> error + outcome" where
  "execute_block rec c [] v st = Inr (None, v, st)"
| "execute_block rec c (blockexpr # rest) v st =
     and_then (rec c blockexpr st) (\<lambda>r.
       case fst r of
         Some s \<Rightarrow> Inr (Some s, later_value v (fst (snd r)), snd (snd r))
       | None \<Rightarrow> execute_block rec c rest (later_value v (fst (snd r))) (snd (snd r)))"

subsection \<open>\<^verbatim>\<open>execute_node\<close> and the run of a program\<close>

text \<open>
  The dispatch of \<^verbatim>\<open>execute_node\<close> on the kind of the node. \<open>rec\<close> executes the
  children. A program can run forever (a loop, a recursion), so the execution is bounded:
  \<open>execute_node fuel\<close> allows \<open>fuel\<close> nested generators and \<open>fuel\<close> iterations of each
  loop, and raises \<open>OutOfFuel\<close> beyond.
\<close>

definition execute_node_body :: "nat \<Rightarrow> exec \<Rightarrow> consumers \<Rightarrow> node \<Rightarrow> state \<Rightarrow> error + outcome" where
  "execute_node_body fuel rec c node st =
     (case node of
        Atom p l \<Rightarrow> execute_atom c p l st
      | Affect p variable expr \<Rightarrow> execute_affect rec c p variable expr st
      | Arrayaffect p array index expr \<Rightarrow> execute_arrayaffect rec c p array index expr st
      | Structaffect p struct field expr \<Rightarrow> execute_structaffect rec c p struct field expr st
      | Derefaffect p pointer expr \<Rightarrow> execute_derefaffect rec c p pointer expr st
      | Bracketexpr p child \<Rightarrow> execute_bracketexpr rec c child st
      | Binaryoperator p left_expr operator right_expr \<Rightarrow>
          execute_binaryoperator rec c p left_expr operator right_expr st
      | Boolexpr p left_expr operator right_expr \<Rightarrow>
          execute_boolbinaryoperator rec c p left_expr operator right_expr st
      | Unaryoperator p operator expr \<Rightarrow> execute_unaryoperator rec c p operator expr st
      | Refexpr p variable_name \<Rightarrow> execute_refexpr c p variable_name st
      | Call p function_name parameters \<Rightarrow> execute_call rec c p function_name parameters st
      | Arraycall p array index \<Rightarrow> execute_arraycall rec c p array index st
      | Structcall p struct field \<Rightarrow> execute_structcall rec c p struct field st
      | Ifexpr p branches \<Rightarrow> execute_branches rec c p branches st
      | Forexpr p variable start_expr end_expr block \<Rightarrow>
          execute_forexpr fuel rec c p variable start_expr end_expr block st
      | Whileexpr p condition_node block \<Rightarrow> while_loop fuel rec c p condition_node block PyNone st
      | Continuerule p \<Rightarrow> execute_continuerule c p st
      | Breakrule p \<Rightarrow> execute_breakrule c p st
      | Returnrule p expr \<Rightarrow> execute_returnrule rec c p expr st
      | Block blockexprs \<Rightarrow> execute_block rec c blockexprs PyNone st)"

primrec execute_node :: "nat \<Rightarrow> exec" where
  "execute_node 0 = (\<lambda>c node st. Inl OutOfFuel)"
| "execute_node (Suc fuel) = execute_node_body fuel (execute_node fuel)"

text \<open>
  \<^verbatim>\<open>main_function_iterator\<close>, consumed to its end, and \<^verbatim>\<open>execute_program\<close>: the
  program is loaded, then \<^verbatim>\<open>main\<close> runs.
\<close>

definition main_function_iterator :: "nat \<Rightarrow> state \<Rightarrow> error + state" where
  "main_function_iterator fuel st =
     and_then (execute_function (execute_node fuel) ''main'' [] st) (\<lambda>r. Inr (snd r))"

definition execute_program :: "nat \<Rightarrow> string list \<Rightarrow> prog \<Rightarrow> error + state" where
  "execute_program fuel lines tree =
     and_then (SynCProgram lines tree) (main_function_iterator fuel)"

subsection \<open>Programs\<close>


text \<open>
  \<^verbatim>\<open>FUNCTION g() RETURN 5 END FUNCTION f() g() END FUNCTION main() PRINT(INT, f()) END\<close>
\<close>

definition bare_call_in_body :: prog where
  "bare_call_in_body =
     \<lparr>globalsdecl = None,
      decls = [Fundecl (1, 1) ''g'' [] (Block [Returnrule (1, 14) (Atom (1, 21) (Integer 5))]),
               Fundecl (1, 27) ''f'' [] (Block [Call (1, 41) ''g'' []]),
               Fundecl (1, 48) ''main'' []
                 (Block [Call (1, 69) ''PRINT'' [TypeTag ''INT'', Expr (Call (1, 76) ''f'' [])]])]\<rparr>"

text \<open>\<^verbatim>\<open>FUNCTION main() x = READ() END\<close>, and a line of 33 binary digits for it.\<close>

definition read_once :: prog where
  "read_once =
     \<lparr>globalsdecl = None,
      decls = [Fundecl (1, 1) ''main'' [] (Block [Affect (1, 19) ''x'' (Call (1, 25) ''READ'' [])])]\<rparr>"

definition one_then_32_zeros :: string where
  "one_then_32_zeros = ''100000000000000000000000000000000''"

text \<open>
  \<^verbatim>\<open>GLOBALS x = 0 y = 0 ENDGLOBALS FUNCTION main() MALLOC(16777214) END\<close>
\<close>

definition malloc_over_globals :: prog where
  "malloc_over_globals =
     \<lparr>globalsdecl = Some [\<lparr>ga_pos = (1, 11), ga_variable = ''x'', ga_value = Integer 0\<rparr>,
                          \<lparr>ga_pos = (1, 17), ga_variable = ''y'', ga_value = Integer 0\<rparr>],
      decls = [Fundecl (1, 32) ''main'' []
                 (Block [Call (1, 54) ''MALLOC'' [Expr (Atom (1, 55) (Integer 16777214))]])]\<rparr>"

text \<open>
  Whether the tree declares a function named \<^verbatim>\<open>main\<close>: the key that
  \<^verbatim>\<open>_check_main_function\<close> looks up in \<^verbatim>\<open>functions_infos\<close>.
\<close>

definition is_main_decl :: "decl \<Rightarrow> bool" where
  "is_main_decl d =
     (case d of
        Structdecl p name field_names \<Rightarrow> False
      | Fundecl p name parameters block \<Rightarrow> name = ''main'')"

definition declares_main :: "prog \<Rightarrow> bool" where
  "declares_main tree = list_ex is_main_decl (decls tree)"

text \<open>
  The first four passes of \<^verbatim>\<open>__init__\<close>, that is, everything before
  \<^verbatim>\<open>_check_main_function\<close>.
\<close>

definition passes_before_main_check :: "string list \<Rightarrow> prog \<Rightarrow> error + state" where
  "passes_before_main_check lines tree =
     and_then (read_structs_and_functions tree (init_state lines)) (\<lambda>st.
     and_then (search_for_static_strings tree st) (\<lambda>st.
     and_then (search_int_char_float_errors tree st) (\<lambda>st.
     declare_globals tree st)))"

text \<open>
  \<^verbatim>\<open>GLOBALS x = 1 x = 2 ENDGLOBALS FUNCTION f() END\<close>: no \<^verbatim>\<open>main\<close>, and the
  global \<^verbatim>\<open>x\<close> declared twice.
\<close>

definition no_main_twice_x :: prog where
  "no_main_twice_x =
     \<lparr>globalsdecl = Some [\<lparr>ga_pos = (1, 11), ga_variable = ''x'', ga_value = Integer 1\<rparr>,
                          \<lparr>ga_pos = (1, 17), ga_variable = ''x'', ga_value = Integer 2\<rparr>],
      decls = [Fundecl (1, 32) ''f'' [] (Block [])]\<rparr>"

text \<open>\<^verbatim>\<open>FUNCTION f() END\<close>: no \<^verbatim>\<open>main\<close> and nothing else wrong.\<close>

definition no_main_only :: prog where
  "no_main_only = \<lparr>globalsdecl = None, decls = [Fundecl (1, 1) ''f'' [] (Block [])]\<rparr>"

subsection \<open>Invariants of the loading passes\<close>

lemma chain_invariant:
  assumes step: "\<And>f s s'. f \<in> set fs \<Longrightarrow> P s \<Longrightarrow> f s = Inr s' \<Longrightarrow> P s'"
    and "P st" and "chain fs st = Inr st'"
  shows "P st'"
  using assms
proof (induction fs arbitrary: st)
  case Nil
  from Nil(3) have "st' = st" by simp
  then show ?case using Nil(2) by blast
next
  case (Cons f fs)
  from Cons.prems(3) obtain s1 where f: "f st = Inr s1" and rest: "chain fs s1 = Inr st'"
    by (cases "f st") auto
  have "f \<in> set (f # fs)" by simp
  then have p1: "P s1" using Cons.prems(1) Cons.prems(2) f by blast
  have "\<And>h s s'. h \<in> set fs \<Longrightarrow> P s \<Longrightarrow> h s = Inr s' \<Longrightarrow> P s'"
  proof -
    fix h s s' assume a: "h \<in> set fs" "P s" "h s = Inr s'"
    from a(1) have "h \<in> set (f # fs)" by simp
    then show "P s'" using Cons.prems(1) a(2) a(3) by blast
  qed
  then show ?case using Cons.IH p1 rest by blast
qed

lemma chain_invariant2:
  assumes f: "\<And>s s'. P s \<Longrightarrow> f s = Inr s' \<Longrightarrow> P s'"
    and g: "\<And>s s'. P s \<Longrightarrow> g s = Inr s' \<Longrightarrow> P s'"
    and "P st" and "chain [f, g] st = Inr st'"
  shows "P st'"
proof (rule chain_invariant[where P=P and fs="[f, g]" and st=st])
  fix h s s' assume h: "h \<in> set [f, g]" and p: "P s" and r: "h s = Inr s'"
  from h have "h = f \<or> h = g" by simp
  then show "P s'" using f g p r by blast
qed (rule assms(3), rule assms(4))

lemma chain_invariant3:
  assumes f: "\<And>s s'. P s \<Longrightarrow> f s = Inr s' \<Longrightarrow> P s'"
    and g: "\<And>s s'. P s \<Longrightarrow> g s = Inr s' \<Longrightarrow> P s'"
    and k: "\<And>s s'. P s \<Longrightarrow> k s = Inr s' \<Longrightarrow> P s'"
    and "P st" and "chain [f, g, k] st = Inr st'"
  shows "P st'"
proof (rule chain_invariant[where P=P and fs="[f, g, k]" and st=st])
  fix h s s' assume h: "h \<in> set [f, g, k]" and p: "P s" and r: "h s = Inr s'"
  from h have "h = f \<or> h = g \<or> h = k" by simp
  then show "P s'" using f g k p r by blast
qed (rule assms(4), rule assms(5))

lemma chain_invariant_map:
  assumes f: "\<And>x s s'. x \<in> set xs \<Longrightarrow> P s \<Longrightarrow> f x s = Inr s' \<Longrightarrow> P s'"
    and "P st" and "chain (map f xs) st = Inr st'"
  shows "P st'"
proof (rule chain_invariant[where P=P and fs="map f xs" and st=st])
  fix h s s' assume h: "h \<in> set (map f xs)" and p: "P s" and r: "h s = Inr s'"
  from h obtain x where "x \<in> set xs" "h = f x" by auto
  then show "P s'" using f p r by blast
qed (rule assms(2), rule assms(3))

lemma visit_literals_invariant:
  assumes act: "\<And>l s s'. P s \<Longrightarrow> act l s = Inr s' \<Longrightarrow> P s'"
  shows "\<And>st st'. P st \<Longrightarrow> visit_literals act n st = Inr st' \<Longrightarrow> P st'"
    and "\<And>st st'. P st \<Longrightarrow> visit_literals_param act pa st = Inr st' \<Longrightarrow> P st'"
    and "\<And>st st'. P st \<Longrightarrow> visit_literals_branch act br st = Inr st' \<Longrightarrow> P st'"
proof (induction n and pa and br)
  case (Atom p l)
  from Atom(2) have "act l st = Inr st'" by simp
  then show ?case using act Atom(1) by blast
next
  case (Affect p v e)
  from Affect.prems(2) have "visit_literals act e st = Inr st'" by simp
  then show ?case using Affect.IH Affect.prems(1) by blast
next
  case (Arrayaffect p a i e)
  from Arrayaffect.prems(2) have c: "chain [visit_literals act a, visit_literals act i, visit_literals act e] st = Inr st'" by simp
  show ?case by (rule chain_invariant3[where P=P, OF Arrayaffect.IH(1) Arrayaffect.IH(2) Arrayaffect.IH(3) Arrayaffect.prems(1) c])
next
  case (Structaffect p s f e)
  from Structaffect.prems(2) have c: "chain [visit_literals act s, visit_literals act e] st = Inr st'" by simp
  show ?case by (rule chain_invariant2[where P=P, OF Structaffect.IH(1) Structaffect.IH(2) Structaffect.prems(1) c])
next
  case (Derefaffect p q e)
  from Derefaffect.prems(2) have c: "chain [visit_literals act q, visit_literals act e] st = Inr st'" by simp
  show ?case by (rule chain_invariant2[where P=P, OF Derefaffect.IH(1) Derefaffect.IH(2) Derefaffect.prems(1) c])
next
  case (Bracketexpr p e)
  from Bracketexpr.prems(2) have "visit_literals act e st = Inr st'" by simp
  then show ?case using Bracketexpr.IH Bracketexpr.prems(1) by blast
next
  case (Binaryoperator p l opr r)
  from Binaryoperator.prems(2) have c: "chain [visit_literals act l, visit_literals act r] st = Inr st'" by simp
  show ?case by (rule chain_invariant2[where P=P, OF Binaryoperator.IH(1) Binaryoperator.IH(2) Binaryoperator.prems(1) c])
next
  case (Boolexpr p l opr r)
  from Boolexpr.prems(2) have c: "chain [visit_literals act l, visit_literals act r] st = Inr st'" by simp
  show ?case by (rule chain_invariant2[where P=P, OF Boolexpr.IH(1) Boolexpr.IH(2) Boolexpr.prems(1) c])
next
  case (Unaryoperator p opr e)
  from Unaryoperator.prems(2) have "visit_literals act e st = Inr st'" by simp
  then show ?case using Unaryoperator.IH Unaryoperator.prems(1) by blast
next
  case (Refexpr p v)
  from Refexpr(2) have "st' = st" by simp
  then show ?case using Refexpr(1) by blast
next
  case (Call p f ps)
  from Call.prems(2) have c: "chain (map (visit_literals_param act) ps) st = Inr st'" by simp
  show ?case by (rule chain_invariant_map[where P=P and f="visit_literals_param act", OF Call.IH Call.prems(1) c])
next
  case (Arraycall p a i)
  from Arraycall.prems(2) have c: "chain [visit_literals act a, visit_literals act i] st = Inr st'" by simp
  show ?case by (rule chain_invariant2[where P=P, OF Arraycall.IH(1) Arraycall.IH(2) Arraycall.prems(1) c])
next
  case (Structcall p s f)
  from Structcall.prems(2) have "visit_literals act s st = Inr st'" by simp
  then show ?case using Structcall.IH Structcall.prems(1) by blast
next
  case (Ifexpr p bs)
  from Ifexpr.prems(2) have c: "chain (map (visit_literals_branch act) bs) st = Inr st'" by simp
  show ?case by (rule chain_invariant_map[where P=P and f="visit_literals_branch act", OF Ifexpr.IH Ifexpr.prems(1) c])
next
  case (Forexpr p v a b blk)
  from Forexpr.prems(2) have c: "chain [visit_literals act a, visit_literals act b, visit_literals act blk] st = Inr st'" by simp
  show ?case by (rule chain_invariant3[where P=P, OF Forexpr.IH(1) Forexpr.IH(2) Forexpr.IH(3) Forexpr.prems(1) c])
next
  case (Whileexpr p c blk)
  from Whileexpr.prems(2) have c: "chain [visit_literals act c, visit_literals act blk] st = Inr st'" by simp
  show ?case by (rule chain_invariant2[where P=P, OF Whileexpr.IH(1) Whileexpr.IH(2) Whileexpr.prems(1) c])
next
  case (Continuerule p)
  from Continuerule(2) have "st' = st" by simp
  then show ?case using Continuerule(1) by blast
next
  case (Breakrule p)
  from Breakrule(2) have "st' = st" by simp
  then show ?case using Breakrule(1) by blast
next
  case (Returnrule p e)
  from Returnrule.prems(2) have "visit_literals act e st = Inr st'" by simp
  then show ?case using Returnrule.IH Returnrule.prems(1) by blast
next
  case (Block ns)
  from Block.prems(2) have c: "chain (map (visit_literals act) ns) st = Inr st'" by simp
  show ?case by (rule chain_invariant_map[where P=P and f="visit_literals act", OF Block.IH Block.prems(1) c])
next
  case (Expr e)
  from Expr.prems(2) have "visit_literals act e st = Inr st'" by simp
  then show ?case using Expr.IH Expr.prems(1) by blast
next
  case (TypeTag t)
  from TypeTag(2) have "st' = st" by simp
  then show ?case using TypeTag(1) by blast
next
  case (Cond tok c blk)
  from Cond.prems(2) have c: "chain [visit_literals act c, visit_literals act blk] st = Inr st'" by simp
  show ?case by (rule chain_invariant2[where P=P, OF Cond.IH(1) Cond.IH(2) Cond.prems(1) c])
next
  case (Else blk)
  from Else.prems(2) have "visit_literals act blk st = Inr st'" by simp
  then show ?case using Else.IH Else.prems(1) by blast
qed

lemma set_memory_functions_infos:
  "functions_infos (snd (set_memory a v st)) = functions_infos st"
  by (simp add: set_memory_def)

lemma set_string_loop_functions_infos:
  "functions_infos (snd (set_string_loop s a st)) = functions_infos st"
proof (induction s arbitrary: a st)
  case Nil
  show ?case by simp
next
  case (Cons c s)
  show ?case
  proof (cases "char_to_bin [c]")
    case (Inl e)
    then show ?thesis by simp
  next
    case (Inr w)
    show ?thesis
    proof (cases "fst (set_memory a (PyInt w) st)")
      case (Inl e)
      then show ?thesis using Inr set_memory_functions_infos[of a "PyInt w" st]
        by (simp add: case_prod_unfold)
    next
      case r: (Inr u)
      have "functions_infos (snd (set_string_loop s (a + 1) (snd (set_memory a (PyInt w) st))))
              = functions_infos (snd (set_memory a (PyInt w) st))"
        by (rule Cons.IH)
      then show ?thesis using Inr r set_memory_functions_infos[of a "PyInt w" st]
        by (simp add: case_prod_unfold)
    qed
  qed
qed

lemma set_string_to_address_functions_infos:
  "functions_infos (snd (set_string_to_address s a st)) = functions_infos st"
proof (cases "char_to_bin [CHR 0x00]")
  case (Inl e)
  then show ?thesis by (simp add: set_string_to_address_def)
next
  case (Inr w)
  show ?thesis
  proof (cases "fst (set_memory (a + int (length s)) (PyInt w) st)")
    case (Inl e)
    then show ?thesis
      using Inr set_memory_functions_infos[of "a + int (length s)" "PyInt w" st]
      by (simp add: set_string_to_address_def case_prod_unfold)
  next
    case r: (Inr u)
    then show ?thesis
      using Inr set_memory_functions_infos[of "a + int (length s)" "PyInt w" st]
        set_string_loop_functions_infos[of s a "snd (set_memory (a + int (length s)) (PyInt w) st)"]
      by (simp add: set_string_to_address_def case_prod_unfold)
  qed
qed

lemma register_static_string_functions_infos:
  assumes "register_static_string l st = Inr st'"
  shows "functions_infos st' = functions_infos st"
proof (cases l)
  case (String sv)
  show ?thesis
  proof (cases "sv \<in> set (map fst (read_only_strings_adress st))")
    case True
    then show ?thesis using assms String by (simp add: register_static_string_def)
  next
    case False
    define st1 where "st1 = st\<lparr>read_only_strings_adress :=
        AList.update sv (read_write_stack_limit st) (read_only_strings_adress st)\<rparr>"
    have f1: "functions_infos st1 = functions_infos st" by (simp add: st1_def)
    from assms String False obtain decoded where
      d: "unicode_escape sv = Inr decoded"
      and r: "and_then (committed (set_string_to_address decoded (read_write_stack_limit st1) st1))
                (\<lambda>r. Inr ((snd r)\<lparr>read_write_stack_limit :=
                        read_write_stack_limit (snd r) + (int (length decoded) + 1)\<rparr>)) = Inr st'"
      by (cases "unicode_escape sv")
        (auto simp: register_static_string_def Let_def and_then_def st1_def split: if_splits)
    from r have "functions_infos st'
        = functions_infos (snd (set_string_to_address decoded (read_write_stack_limit st1) st1))"
      by (cases "fst (set_string_to_address decoded (read_write_stack_limit st1) st1)")
        (auto simp: and_then_def committed_def)
    then show ?thesis using set_string_to_address_functions_infos f1 by simp
  qed
qed (use assms in \<open>simp_all add: register_static_string_def\<close>)

lemma check_int_char_float_functions_infos:
  assumes "check_int_char_float l st = Inr st'"
  shows "functions_infos st' = functions_infos st"
  using assms by (cases l) (simp_all add: check_int_char_float_def split: if_splits)

lemma declare_global_functions_infos:
  assumes "declare_global g st = Inr st'"
  shows "functions_infos st' = functions_infos st"
proof -
  define st1 where "st1 = st\<lparr>global_variables := global_variables st @ [ga_variable g]\<rparr>"
  from assms obtain v a where
    "and_then (committed (set_memory a v st1)) (\<lambda>r. Inr (snd r)) = Inr st'"
    by (auto simp: declare_global_def Let_def and_then_def st1_def split: if_splits sum.splits)
  then have "st' = snd (set_memory a v st1)"
    by (cases "fst (set_memory a v st1)") (auto simp: and_then_def committed_def)
  then show ?thesis using set_memory_functions_infos[of a v st1] by (simp add: st1_def)
qed

lemma read_structure_fields_functions_infos:
  "read_structure_fields n fs i st = Inr st' \<Longrightarrow> functions_infos st' = functions_infos st"
proof (induction fs arbitrary: i st)
  case Nil
  then show ?case by simp
next
  case (Cons f fs)
  from Cons.prems have r: "read_structure_fields n fs (Suc i)
      (st\<lparr>structures_fields_indexes := AList.update f i (structures_fields_indexes st)\<rparr>) = Inr st'"
    by (simp split: if_splits)
  have "functions_infos st' = functions_infos
      (st\<lparr>structures_fields_indexes := AList.update f i (structures_fields_indexes st)\<rparr>)"
    by (rule Cons.IH[OF r])
  then show ?case by simp
qed

lemma read_decl_no_main:
  assumes d: "\<not> is_main_decl d"
    and p: "map_of (functions_infos st) ''main'' = None"
    and r: "read_decl d st = Inr st'"
  shows "map_of (functions_infos st') ''main'' = None"
proof (cases d)
  case (Structdecl q name fs)
  with r have "read_structure_fields name fs 0
      (st\<lparr>structures_fields := AList.update name fs (structures_fields st)\<rparr>) = Inr st'"
    by (simp add: read_decl_def read_structure_def split: if_splits)
  then have "functions_infos st' = functions_infos
      (st\<lparr>structures_fields := AList.update name fs (structures_fields st)\<rparr>)"
    by (rule read_structure_fields_functions_infos)
  then show ?thesis using p by simp
next
  case (Fundecl q name ps b)
  with d have "name \<noteq> ''main''" by (simp add: is_main_decl_def)
  then show ?thesis using r p Fundecl
    by (auto simp: read_decl_def read_function_def update_conv' split: if_splits)
qed

lemma read_structs_and_functions_no_main:
  assumes m: "\<not> declares_main tree"
    and p: "map_of (functions_infos st) ''main'' = None"
    and r: "read_structs_and_functions tree st = Inr st'"
  shows "map_of (functions_infos st') ''main'' = None"
proof (rule chain_invariant_map[where P = "\<lambda>s. map_of (functions_infos s) ''main'' = None"
      and f = read_decl and xs = "decls tree" and st = st])
  fix x s s'
  assume x: "x \<in> set (decls tree)" and ps: "map_of (functions_infos s) ''main'' = None"
    and rs: "read_decl x s = Inr s'"
  from m x have "\<not> is_main_decl x" by (auto simp: declares_main_def list_ex_iff)
  then show "map_of (functions_infos s') ''main'' = None" using ps rs by (rule read_decl_no_main)
next
  show "map_of (functions_infos st) ''main'' = None" by (rule p)
next
  show "chain (map read_decl (decls tree)) st = Inr st'"
    using r by (simp add: read_structs_and_functions_def)
qed

lemma visit_literals_decl_invariant:
  assumes act: "\<And>l s s'. P s \<Longrightarrow> act l s = Inr s' \<Longrightarrow> P s'"
    and p: "P st" and r: "visit_literals_decl act d st = Inr st'"
  shows "P st'"
proof (cases d)
  case (Structdecl q name fs)
  with r have "st' = st" by (simp add: visit_literals_decl_def)
  then show ?thesis using p by blast
next
  case (Fundecl q name ps b)
  with r have v: "visit_literals act b st = Inr st'" by (simp add: visit_literals_decl_def)
  show ?thesis by (rule visit_literals_invariant(1)[where P = P, OF act p v])
qed

lemma visit_literals_prog_invariant:
  assumes act: "\<And>l s s'. P s \<Longrightarrow> act l s = Inr s' \<Longrightarrow> P s'"
    and p: "P st" and r: "visit_literals_prog act tree st = Inr st'"
  shows "P st'"
proof (rule chain_invariant[where P = P and st = st
      and fs = "(case globalsdecl tree of None \<Rightarrow> [] | Some gs \<Rightarrow> map (\<lambda>g. act (ga_value g)) gs)
                @ map (visit_literals_decl act) (decls tree)"])
  fix h s s'
  assume h: "h \<in> set ((case globalsdecl tree of None \<Rightarrow> []
                          | Some gs \<Rightarrow> map (\<lambda>g. act (ga_value g)) gs)
                        @ map (visit_literals_decl act) (decls tree))"
    and ps: "P s" and rs: "h s = Inr s'"
  from h consider (g) l where "h = act l" | (d) x where "h = visit_literals_decl act x"
    by (cases "globalsdecl tree") auto
  then show "P s'"
  proof cases
    case g
    with rs have "act l s = Inr s'" by simp
    with ps show ?thesis by (rule act)
  next
    case d
    with rs have "visit_literals_decl act x s = Inr s'" by simp
    with act ps show ?thesis by (rule visit_literals_decl_invariant[where P = P])
  qed
next
  show "P st" by (rule p)
next
  show "chain ((case globalsdecl tree of None \<Rightarrow> [] | Some gs \<Rightarrow> map (\<lambda>g. act (ga_value g)) gs)
               @ map (visit_literals_decl act) (decls tree)) st = Inr st'"
    using r by (simp add: visit_literals_prog_def)
qed

lemma search_for_static_strings_no_main:
  assumes p: "map_of (functions_infos st) ''main'' = None"
    and r: "search_for_static_strings tree st = Inr st'"
  shows "map_of (functions_infos st') ''main'' = None"
proof (rule visit_literals_prog_invariant[where P = "\<lambda>s. map_of (functions_infos s) ''main'' = None"
      and act = register_static_string and tree = tree and st = st])
  fix l s s'
  assume ps: "map_of (functions_infos s) ''main'' = None" and rs: "register_static_string l s = Inr s'"
  from rs have "functions_infos s' = functions_infos s" by (rule register_static_string_functions_infos)
  with ps show "map_of (functions_infos s') ''main'' = None" by simp
next
  show "map_of (functions_infos st) ''main'' = None" by (rule p)
next
  show "visit_literals_prog register_static_string tree st = Inr st'"
    using r by (simp add: search_for_static_strings_def)
qed

lemma search_int_char_float_errors_no_main:
  assumes p: "map_of (functions_infos st) ''main'' = None"
    and r: "search_int_char_float_errors tree st = Inr st'"
  shows "map_of (functions_infos st') ''main'' = None"
proof (rule visit_literals_prog_invariant[where P = "\<lambda>s. map_of (functions_infos s) ''main'' = None"
      and act = check_int_char_float and tree = tree and st = st])
  fix l s s'
  assume ps: "map_of (functions_infos s) ''main'' = None" and rs: "check_int_char_float l s = Inr s'"
  from rs have "functions_infos s' = functions_infos s" by (rule check_int_char_float_functions_infos)
  with ps show "map_of (functions_infos s') ''main'' = None" by simp
next
  show "map_of (functions_infos st) ''main'' = None" by (rule p)
next
  show "visit_literals_prog check_int_char_float tree st = Inr st'"
    using r by (simp add: search_int_char_float_errors_def)
qed

lemma declare_globals_no_main:
  assumes p: "map_of (functions_infos st) ''main'' = None"
    and r: "declare_globals tree st = Inr st'"
  shows "map_of (functions_infos st') ''main'' = None"
proof (cases "globalsdecl tree")
  case None
  with r have "st' = st" by (simp add: declare_globals_def)
  with p show ?thesis by simp
next
  case (Some gs)
  show ?thesis
  proof (rule chain_invariant_map[where P = "\<lambda>s. map_of (functions_infos s) ''main'' = None"
        and f = declare_global and xs = gs and st = st])
    fix x s s'
    assume ps: "map_of (functions_infos s) ''main'' = None" and rs: "declare_global x s = Inr s'"
    from rs have "functions_infos s' = functions_infos s" by (rule declare_global_functions_infos)
    with ps show "map_of (functions_infos s') ''main'' = None" by simp
  next
    show "map_of (functions_infos st) ''main'' = None" by (rule p)
  next
    show "chain (map declare_global gs) st = Inr st'" using r Some by (simp add: declare_globals_def)
  qed
qed

lemma passes_before_main_check_no_main:
  assumes m: "\<not> declares_main tree"
    and r: "passes_before_main_check lines tree = Inr st"
  shows "map_of (functions_infos st) ''main'' = None"
proof -
  from r obtain s1 s2 s3 where
    r1: "read_structs_and_functions tree (init_state lines) = Inr s1"
    and r2: "search_for_static_strings tree s1 = Inr s2"
    and r3: "search_int_char_float_errors tree s2 = Inr s3"
    and r4: "declare_globals tree s3 = Inr st"
    by (auto simp: passes_before_main_check_def and_then_def split: sum.splits)
  have "map_of (functions_infos (init_state lines)) ''main'' = None" by (simp add: init_state_def)
  with m have "map_of (functions_infos s1) ''main'' = None"
    using r1 by (rule read_structs_and_functions_no_main)
  then have "map_of (functions_infos s2) ''main'' = None"
    using r2 by (rule search_for_static_strings_no_main)
  then have "map_of (functions_infos s3) ''main'' = None"
    using r3 by (rule search_int_char_float_errors_no_main)
  then show ?thesis using r4 by (rule declare_globals_no_main)
qed

lemma SynCProgram_passes:
  "SynCProgram lines tree = and_then (passes_before_main_check lines tree) check_main_function"
  by (simp add: SynCProgram_def passes_before_main_check_def and_then_def split: sum.splits)

subsection \<open>Theorems\<close>

text \<open>
  C9. For every 32-bit word \<open>w\<close> (an integer in \<open>[0, 2^32)\<close>), encoding the signed integer
  obtained by decoding \<open>w\<close> yields \<open>w\<close> back, with the overflow flag off:
  \<^verbatim>\<open>int_to_bin(bin_to_int(w)) == w\<close>.
\<close>

theorem int_to_bin_bin_to_int:
  "0 \<le> w \<Longrightarrow> w < 2 ^ 32 \<Longrightarrow> int_to_bin (bin_to_int w) False = w"
  by (simp add: int_to_bin_def bin_to_int_def INT_NB_BITS_def MAX_NB_BITS_def)

theorem int_to_bin_bin_to_int_witness:
  "(0::int) \<le> 4294967295 \<and> (4294967295::int) < 2 ^ 32
     \<and> bin_to_int 4294967295 = - 1
     \<and> int_to_bin (bin_to_int 4294967295) False = 4294967295"
  using int_to_bin_bin_to_int [of 4294967295]
  by (simp add: bin_to_int_def INT_NB_BITS_def MAX_NB_BITS_def)

text \<open>
  C6. Decoding the word 128 as a character: \<^verbatim>\<open>bin_to_char\<close> compares with
  \<^verbatim>\<open>x <= 2**CHAR_NB_BITS\<close>, so the word 128, which does not fit in 7 bits, is
  accepted and decoded as the character of ordinal 128 instead of raising
  \<^verbatim>\<open>WrongCharacterCodeError\<close>; the first word that is rejected is 129.
\<close>

theorem bin_to_char_128_accepted:
  "bin_to_char 128 = Inr (char_of (128::int))
     \<and> bin_to_char 128 \<noteq> Inl WrongCharacterCodeError
     \<and> bin_to_char 129 = Inl WrongCharacterCodeError"
  by (simp add: bin_to_char_def CHAR_NB_BITS_def)

text \<open>
  C4. \<^verbatim>\<open>_malloc(size)\<close> with \<open>size \<le> 0\<close> raises \<^verbatim>\<open>MallocNegativeSizeError\<close> and
  leaves the program object as it was; with \<open>size \<ge> 1\<close>, when the address chosen for the
  block fails \<^verbatim>\<open>_check_memory_limit_exceeded\<close>, it returns the NULL pointer word 0,
  raises nothing and leaves the program object, its heap list included, as it was.
\<close>

theorem malloc_error_results:
  "(sz \<le> 0 \<longrightarrow> malloc sz st = (Inl MallocNegativeSizeError, st)) \<and>
   (1 \<le> sz \<and> \<not> check_memory_limit_exceeded st (Some (fst (malloc_place sz (memory_heap st))))
      \<longrightarrow> malloc sz st = (Inr 0, st))"
  by (simp add: malloc_def Let_def pointer_to_bin_def int_to_bin_def NULL_ADDRESS_def)

theorem malloc_error_results_witness:
  "(0::int) \<le> 0 \<and> malloc 0 (init_state []) = (Inl MallocNegativeSizeError, init_state [])
   \<and> (1::int) \<le> 16777216
   \<and> fst (malloc_place 16777216 (memory_heap (init_state []))) = 0
   \<and> \<not> check_memory_limit_exceeded (init_state [])
          (Some (fst (malloc_place 16777216 (memory_heap (init_state [])))))
   \<and> malloc 16777216 (init_state []) = (Inr 0, init_state [])"
  using malloc_error_results [of 0 "init_state []"]
    malloc_error_results [of 16777216 "init_state []"]
  by (simp add: malloc_place_def check_memory_limit_exceeded_def init_state_def
      MEMORY_SIZE_def POINTER_NB_BITS_def)

text \<open>
  C3. A gap of exactly \<open>size\<close> free words between two allocated blocks is not used.
  After \<^verbatim>\<open>MALLOC(1)\<close>, \<^verbatim>\<open>MALLOC(2)\<close>, \<^verbatim>\<open>MALLOC(1)\<close> and \<^verbatim>\<open>FREE\<close> of the
  second block, the heap list holds the blocks \<open>(16777215, 1)\<close> and \<open>(16777212, 1)\<close>, and
  the two words 16777213 and 16777214 between them are free. The scan of \<^verbatim>\<open>_malloc\<close>
  tests \<^verbatim>\<open>reserved_address + reserved_size + size < previous_address\<close> with a strict
  inequality, so a request of 2 words skips that gap and is placed below the lowest block,
  at 16777210.
\<close>

theorem malloc_skips_exact_gap:
  "map_sum id memory_heap
     (run_mem_ops [Malloc 1, Malloc 2, Malloc 1, Free 16777213] (init_state []))
     = Inr [(16777215, 1), (16777212, 1)]
   \<and> malloc_place 2 [(16777215, 1), (16777212, 1)] = (16777210, 2)
   \<and> map_sum id memory_heap
     (run_mem_ops [Malloc 1, Malloc 2, Malloc 1, Free 16777213, Malloc 2] (init_state []))
     = Inr [(16777215, 1), (16777212, 1), (16777210, 2)]"
  by (simp add: apply_mem_op_def malloc_def malloc_place_def check_memory_limit_exceeded_def
      init_state_def MEMORY_SIZE_def POINTER_NB_BITS_def list_insert_def free_def Let_def)

text \<open>
  C10. After any run of \<^verbatim>\<open>_set_memory\<close>, \<^verbatim>\<open>_malloc\<close> and \<^verbatim>\<open>_free\<close> calls that
  raised nothing, \<^verbatim>\<open>_get_memory\<close> succeeds at every address in \<open>[1, 2^24)\<close> and returns
  the value of the most recent \<^verbatim>\<open>_set_memory\<close> at that address, or, if there was none,
  what the cell held at the start of the run, which is word 0 in a new program object.
  \<^verbatim>\<open>_free\<close> and \<^verbatim>\<open>_malloc\<close> are part of the runs and change no cell: a word inside a
  freed block is read back unchanged and without error.
\<close>

theorem get_memory_last_written:
  "run_mem_ops ops st0 = Inr st \<Longrightarrow> 1 \<le> a \<Longrightarrow> a < 2 ^ 24 \<Longrightarrow>
   get_memory st a = Inr (case last_written ops a of Some v \<Rightarrow> v | None \<Rightarrow> memory st0 a)
   \<and> memory (init_state lines) a = PyInt 0"
proof (induction ops arbitrary: st0)
  case Nil
  then show ?case
    by (simp add: get_memory_def MEMORY_SIZE_def POINTER_NB_BITS_def init_state_def)
next
  case (Cons op ops)
  then show ?case
    by (cases op)
      (auto simp: apply_mem_op_def set_memory_def malloc_def free_def Let_def
        split: sum.splits if_splits option.splits prod.splits)
qed

theorem get_memory_last_written_witness:
  "\<exists>st. run_mem_ops [Malloc 3, Set_memory 16777214 (PyInt 7), Free 16777213] (init_state []) = Inr st
      \<and> memory_heap st = []
      \<and> (1::int) \<le> 16777214 \<and> (16777214::int) < 2 ^ 24
      \<and> get_memory st 16777214 = Inr (PyInt 7)
      \<and> get_memory st 16777215 = Inr (PyInt 0)"
proof -
  have "\<exists>st. run_mem_ops [Malloc 3, Set_memory 16777214 (PyInt 7), Free 16777213] (init_state [])
          = Inr st \<and> memory_heap st = []"
    by (simp add: apply_mem_op_def malloc_def malloc_place_def check_memory_limit_exceeded_def
        init_state_def MEMORY_SIZE_def POINTER_NB_BITS_def list_insert_def free_def Let_def
        set_memory_def)
  then obtain st where
    r: "run_mem_ops [Malloc 3, Set_memory 16777214 (PyInt 7), Free 16777213] (init_state []) = Inr st"
    and h: "memory_heap st = []"
    by blast
  have a: "get_memory st 16777214 = Inr (PyInt 7)"
    using get_memory_last_written [OF r, of 16777214 "[]"] by simp
  have b: "get_memory st 16777215 = Inr (PyInt 0)"
    using get_memory_last_written [OF r, of 16777215 "[]"] by (simp add: init_state_def)
  show ?thesis using r h a b by simp
qed

text \<open>
  Claim C7, as stated: the check for \<^verbatim>\<open>main\<close> comes before the global variables are
  declared, so a program without \<^verbatim>\<open>main\<close> fails with the missing-main error even when
  its globals block is wrong too. \<^verbatim>\<open>__init__\<close> calls \<^verbatim>\<open>_check_main_function\<close> last,
  after \<^verbatim>\<open>_declare_globals\<close>: the program
  \<^verbatim>\<open>GLOBALS x = 1 x = 2 ENDGLOBALS FUNCTION f() END\<close> has no \<^verbatim>\<open>main\<close>, and loading it
  fails with the duplicate-global error, not the missing-main error.
\<close>

theorem no_main_duplicate_global_error:
  "\<not> declares_main no_main_twice_x
   \<and> SynCProgram [] no_main_twice_x = Inl SameGlobalVariableNameError
   \<and> SynCProgram [] no_main_twice_x \<noteq> Inl NoMainFunctionError"
  by (simp add: declares_main_def is_main_decl_def
      SynCProgram_def no_main_twice_x_def and_then_def read_structs_and_functions_def
      read_decl_def read_function_def init_state_def search_for_static_strings_def
      search_int_char_float_errors_def visit_literals_prog_def visit_literals_decl_def
      register_static_string_def check_int_char_float_def declare_globals_def declare_global_def
      Let_def literal_value_def int_to_bin_def get_variable_address_def committed_def
      set_memory_def MEMORY_SIZE_def POINTER_NB_BITS_def)

text \<open>
  Claim C7, amended: the check for \<^verbatim>\<open>main\<close> is the last step of load-time validation.
  For every program lacking a main function, loading fails: with the error of the first of
  the earlier steps (declarations, static strings, literals, globals) that raises, and with
  the missing-main error exactly when none of them does.
\<close>

theorem no_main_error_after_other_passes:
  assumes "\<not> declares_main tree"
  shows "SynCProgram lines tree =
           (case passes_before_main_check lines tree of
              Inl e \<Rightarrow> Inl e
            | Inr st \<Rightarrow> Inl NoMainFunctionError)"
proof (cases "passes_before_main_check lines tree")
  case (Inl e)
  then show ?thesis by (simp add: SynCProgram_passes and_then_def)
next
  case (Inr st)
  with assms have "map_of (functions_infos st) ''main'' = None"
    by (rule passes_before_main_check_no_main)
  then show ?thesis using Inr
    by (simp add: SynCProgram_passes and_then_def check_main_function_def)
qed

theorem no_main_error_after_other_passes_witness:
  "\<not> declares_main no_main_only
   \<and> (\<exists>st. passes_before_main_check [] no_main_only = Inr st)
   \<and> SynCProgram [] no_main_only = Inl NoMainFunctionError"
proof -
  have m: "\<not> declares_main no_main_only"
    by (simp add: declares_main_def is_main_decl_def no_main_only_def)
  have p: "\<exists>st. passes_before_main_check [] no_main_only = Inr st"
    by (simp add: passes_before_main_check_def no_main_only_def and_then_def
        read_structs_and_functions_def read_decl_def read_function_def init_state_def
        search_for_static_strings_def search_int_char_float_errors_def visit_literals_prog_def
        visit_literals_decl_def declare_globals_def)
  from p obtain st where s: "passes_before_main_check [] no_main_only = Inr st" by blast
  from no_main_error_after_other_passes[OF m, of "[]"] s
  have "SynCProgram [] no_main_only = Inl NoMainFunctionError" by simp
  with m p show ?thesis by blast
qed



text \<open>
  Claim C1: a function whose body ends without executing a \<^verbatim>\<open>RETURN\<close> has the value
  0, whatever its body contains, bare calls included. \<^verbatim>\<open>_execute_call\<close> starts from
  \<^verbatim>\<open>result = int_to_bin(0)\<close> but then takes every value that \<^verbatim>\<open>execute_function\<close>
  yields, and the body forwards the result of a bare call: in
  \<^verbatim>\<open>FUNCTION g() RETURN 5 END FUNCTION f() g() END FUNCTION main() PRINT(INT, f()) END\<close>
  the body of \<^verbatim>\<open>f\<close> executes no \<^verbatim>\<open>RETURN\<close>, and \<^verbatim>\<open>f()\<close> has the value 5.
\<close>

theorem bare_call_result_is_function_result:
  "map_sum id stdout (execute_program 10 [] bare_call_in_body) = Inr ''5''"
  by code_simp

text \<open>
  Claim C5: \<^verbatim>\<open>READ\<close> consumes exactly 32 binary digits and leaves the characters
  beyond them for the next \<^verbatim>\<open>READ\<close>. The inner loop of \<^verbatim>\<open>READ\<close> empties the whole
  buffer into \<^verbatim>\<open>bin\<close>: on the input line of a 1 followed by 32 zeros,
  \<^verbatim>\<open>x = READ()\<close> stores \<^verbatim>\<open>int(bin, 2)\<close> of all 33 digits, which is \<open>2 ^ 32\<close>, at the
  address 1 of \<^verbatim>\<open>x\<close>, and nothing is left in the buffer.
\<close>

theorem read_consumes_every_digit:
  "map_sum id (\<lambda>st. (memory st 1, input_buffer st, stdin st))
     (execute_program 10 [one_then_32_zeros] read_once)
   = Inr (PyInt 4294967296, [], [])"
  by code_simp

text \<open>
  Claim C2: every address of an allocated block is strictly above the last occupied word
  of the stack, global variables included. \<^verbatim>\<open>_check_memory_limit_exceeded\<close> leaves the
  global variables out of the stack top: in
  \<^verbatim>\<open>GLOBALS x = 0 y = 0 ENDGLOBALS FUNCTION main() MALLOC(16777214) END\<close> the call
  raises nothing and reserves the block that starts at address 2, the address of the
  global variable \<^verbatim>\<open>y\<close>.
\<close>

theorem malloc_block_covers_global_variable:
  "map_sum id (\<lambda>st. (memory_heap st, get_variable_address st ''y''))
     (execute_program 10 [] malloc_over_globals)
   = Inr ([(2, 16777214)], Inr 2)"
  by code_simp

end
